theory Spec2Isabelle
  imports Complex_Main "HOL-Library.Word" "HOL-Library.Log_Nat" "HOL-Library.AList"
    "HOL-Library.Multiset"
begin

unbundle bit_operations_syntax

section \<open>Shared data model\<close>

text \<open>
  Errors are values.  \<open>ErrUnsupportedOp\<close> is \<open>common.ErrUnsupportedOp\<close>; every other
  error of a collaborator is carried as \<open>ErrOther\<close> with its message.  A function that
  can panic (index out of range, nil dereference) has an \<open>outcome\<close>: it returns or it panics.
\<close>

datatype error = ErrUnsupportedOp | ErrOther string

datatype 'a outcome = Returns 'a | Panics string

text \<open>Go's \<open>map[string]string\<close> of raw annotations.\<close>

type_synonym Annotations = "string \<rightharpoonup> string"

record NamespacedName =
  nnNamespace :: string
  nnName :: string

record ClusterNamespacedName =
  cnnClusterId :: string
  cnnNamespace :: string
  cnnName :: string

section \<open>Annotation parsers\<close>

subsection \<open>Local rate limit (package annotations)\<close>


definition defaultStatusCode :: "32 word" where "defaultStatusCode = 503"

record Duration =
  Seconds :: int
  Nanos :: int


record localRateLimitConfig =
  TokensPerFill :: "32 word"
  MaxTokens :: "32 word"
  FillInterval :: Duration

subsection \<open>Downstream TLS (ingress/kube/annotations/downstreamtls.go)\<close>

definition authTLSSecret :: string where "authTLSSecret = ''auth-tls-secret''"
definition tlsMinVersion :: string where "tlsMinVersion = ''tls-min-protocol-version''"
definition tlsMaxVersion :: string where "tlsMaxVersion = ''tls-max-protocol-version''"
definition sslCipher :: string where "sslCipher = ''ssl-cipher''"

type_synonym TLSProtocolVersion = string

definition tlsV10 :: TLSProtocolVersion where "tlsV10 = ''TLSv1.0''"
definition tlsV11 :: TLSProtocolVersion where "tlsV11 = ''TLSv1.1''"
definition tlsV12 :: TLSProtocolVersion where "tlsV12 = ''TLSv1.2''"
definition tlsV13 :: TLSProtocolVersion where "tlsV13 = ''TLSv1.3''"

datatype ServerTLSSettings_TLSProtocol = TLS_AUTO | TLSV1_0 | TLSV1_1 | TLSV1_2 | TLSV1_3

datatype ServerTLSSettings_TLSmode = PASSTHROUGH | SIMPLE | MUTUAL

definition tlsProtocol :: "TLSProtocolVersion \<rightharpoonup> ServerTLSSettings_TLSProtocol" where
  "tlsProtocol = map_of
     [(tlsV10, TLSV1_0), (tlsV11, TLSV1_1), (tlsV12, TLSV1_2), (tlsV13, TLSV1_3)]"

definition isValidTLSProtocolVersion :: "string \<Rightarrow> bool" where
  "isValidTLSProtocolVersion protocol = (tlsProtocol protocol \<noteq> None)"

text \<open>\<open>Convert\<close> reads the table; a missing key gives the zero value \<open>TLS_AUTO\<close>.\<close>

definition Convert :: "string \<Rightarrow> ServerTLSSettings_TLSProtocol" where
  "Convert protocol = (case tlsProtocol protocol of None \<Rightarrow> TLS_AUTO | Some p \<Rightarrow> p)"

record DownstreamTLSConfig =
  TlsMinVersion :: TLSProtocolVersion
  TlsMaxVersion :: TLSProtocolVersion
  CipherSuites :: "string list"
  Mode :: ServerTLSSettings_TLSmode
  CASecretName :: NamespacedName

subsection \<open>The per-object annotation fragment\<close>

text \<open>
  \<open>AuthConfig\<close> and \<open>FallbackConfig\<close> are declared in files of package annotations
  that are outside the sources at hand; they carry the fields the engine reads.
\<close>

record AuthConfig =
  AuthSecret :: ClusterNamespacedName
  AuthRealm :: string
  Credentials :: "string list"

record FallbackConfig =
  DefaultBackend :: NamespacedName
  Port :: "32 word"

text \<open>\<open>annotations.Ingress\<close>: the embedded \<open>Meta\<close> and one optional pointer per feature.\<close>

record Ingress =
  Namespace :: string
  Name :: string
  RawClusterId :: string
  ClusterId :: string
  localRateLimit :: "localRateLimitConfig option"
  DownstreamTLS :: "DownstreamTLSConfig option"
  Auth :: "AuthConfig option"
  Fallback :: "FallbackConfig option"



text \<open>\<open>strings.Split\<close> for a one-character separator: \<open>n\<close> separators give \<open>n + 1\<close> pieces.\<close>

fun strings_Split :: "string \<Rightarrow> char \<Rightarrow> string list" where
  "strings_Split [] sep = [[]]"
| "strings_Split (c # cs) sep =
     (if c = sep then [] # strings_Split cs sep
      else (case strings_Split cs sep of
              [] \<Rightarrow> [[c]]
            | p # ps \<Rightarrow> (c # p) # ps))"

definition needDownstreamTLS ::
  "(Annotations \<Rightarrow> string \<Rightarrow> bool) \<Rightarrow> (Annotations \<Rightarrow> string \<Rightarrow> bool) \<Rightarrow> Annotations \<Rightarrow> bool"
  where
  "needDownstreamTLS HasMSE HasASAP annotations =
     (HasMSE annotations tlsMinVersion \<or> HasMSE annotations tlsMaxVersion \<or>
      HasASAP annotations sslCipher \<or> HasASAP annotations authTLSSecret)"

definition downstreamTLS_Parse ::
  "(Annotations \<Rightarrow> string \<Rightarrow> bool) \<Rightarrow> (Annotations \<Rightarrow> string \<Rightarrow> bool) \<Rightarrow>
   (Annotations \<Rightarrow> string \<Rightarrow> error + string) \<Rightarrow> (Annotations \<Rightarrow> string \<Rightarrow> error + string) \<Rightarrow>
   (string \<Rightarrow> NamespacedName) \<Rightarrow> (string \<Rightarrow> bool) \<Rightarrow>
   Annotations \<Rightarrow> Ingress \<Rightarrow> error option \<times> Ingress" where
  "downstreamTLS_Parse HasMSE HasASAP ParseStringASAP ParseStringForMSE SplitNamespacedName
       IsValidCipherSuite annotations config =
     (if \<not> needDownstreamTLS HasMSE HasASAP annotations then (None, config)
      else
        let c0 = \<lparr>TlsMinVersion = [], TlsMaxVersion = [], CipherSuites = [], Mode = SIMPLE,
                  CASecretName = \<lparr>nnNamespace = [], nnName = []\<rparr>\<rparr>;
            c1 = (case ParseStringASAP annotations authTLSSecret of
                    Inr secretName \<Rightarrow>
                      (let namespacedName = SplitNamespacedName secretName
                       in if nnName namespacedName = [] then c0
                          else c0\<lparr>CASecretName :=
                                    (if nnNamespace namespacedName = []
                                     then namespacedName\<lparr>nnNamespace := Namespace config\<rparr>
                                     else namespacedName),
                                  Mode := MUTUAL\<rparr>)
                  | Inl _ \<Rightarrow> c0);
            c2 = (case ParseStringForMSE annotations tlsMinVersion of
                    Inr minVersion \<Rightarrow>
                      if isValidTLSProtocolVersion minVersion
                      then c1\<lparr>TlsMinVersion := minVersion\<rparr> else c1
                  | Inl _ \<Rightarrow> c1);
            c3 = (case ParseStringForMSE annotations tlsMaxVersion of
                    Inr maxVersion \<Rightarrow>
                      if isValidTLSProtocolVersion maxVersion
                      then c2\<lparr>TlsMaxVersion := maxVersion\<rparr> else c2
                  | Inl _ \<Rightarrow> c2);
            c4 = (case ParseStringASAP annotations sslCipher of
                    Inr rawTlsCipherSuite \<Rightarrow>
                      c3\<lparr>CipherSuites :=
                           filter IsValidCipherSuite (strings_Split rawTlsCipherSuite CHR '':'')\<rparr>
                  | Inl _ \<Rightarrow> c3)
        in (None, config\<lparr>DownstreamTLS := Some c4\<rparr>))"

section \<open>Routing objects\<close>

text \<open>
  The protobuf messages of \<open>istio.io/api/networking/v1alpha3\<close> with the fields this
  package reads or writes; what a message holds beyond them travels in an opaque field.
  Pointers to messages are values here, which is faithful as long as no two entries of
  one slice are the same pointer.
\<close>

datatype StringMatch = Exact string | Prefix string | Regex string

record HTTPMatchRequest =
  Uri :: "StringMatch option"
  Headers :: "string \<rightharpoonup> StringMatch"
  matchOther :: string

record Destination =
  Host :: string
  PortNumber :: "32 word option"

record HTTPRouteDestination =
  rdDestination :: "Destination option"
  Weight :: "32 word"

record HTTPRedirect =
  RedirectCode :: "32 word"
  redirectUri :: string

record HTTPRoute =
  hrName :: string
  hrMatch :: "HTTPMatchRequest list"
  hrRoute :: "HTTPRouteDestination list"
  hrRedirect :: "HTTPRedirect option"
  hrInternalActiveRedirect :: "string option"
  hrOther :: string

record VirtualService =
  vsGateways :: "string list"
  vsHttp :: "HTTPRoute list"
  vsOther :: string

type_synonym Gateway = string
type_synonym PortTrafficPolicy = string

record DestinationRule =
  drHost :: string
  drPortLevelSettings :: "PortTrafficPolicy list"

text \<open>
  The one patch \<open>constructBasicAuthEnvoyFilter\<close> builds: an HTTP filter inserted after
  the CORS filter of the gateway's connection manager.
\<close>

datatype ApplyTo = HTTP_FILTER
datatype PatchContext = GATEWAY
datatype PatchOperation = INSERT_AFTER

record EnvoyConfigObjectPatch =
  patchApplyTo :: ApplyTo
  patchContext :: PatchContext
  patchFilterName :: string
  patchSubFilterName :: string
  patchOperation :: PatchOperation
  patchValue :: string

record EnvoyFilter =
  ConfigPatches :: "EnvoyConfigObjectPatch list"

datatype Spec =
    IngressSpec string
  | GatewaySpec Gateway
  | VirtualServiceSpec VirtualService
  | DestinationRuleSpec DestinationRule
  | EnvoyFilterSpec EnvoyFilter

record GroupVersionKind =
  gvkGroup :: string
  gvkVersion :: string
  gvkKind :: string

text \<open>The four kinds of \<open>istio.io/istio/pkg/config/schema/gvk\<close> the store serves.\<close>

definition gvk_Gateway :: GroupVersionKind where
  "gvk_Gateway = \<lparr>gvkGroup = ''networking.istio.io'', gvkVersion = ''v1alpha3'',
     gvkKind = ''Gateway''\<rparr>"

definition gvk_VirtualService :: GroupVersionKind where
  "gvk_VirtualService = \<lparr>gvkGroup = ''networking.istio.io'', gvkVersion = ''v1alpha3'',
     gvkKind = ''VirtualService''\<rparr>"

definition gvk_DestinationRule :: GroupVersionKind where
  "gvk_DestinationRule = \<lparr>gvkGroup = ''networking.istio.io'', gvkVersion = ''v1alpha3'',
     gvkKind = ''DestinationRule''\<rparr>"

definition gvk_EnvoyFilter :: GroupVersionKind where
  "gvk_EnvoyFilter = \<lparr>gvkGroup = ''networking.istio.io'', gvkVersion = ''v1alpha3'',
     gvkKind = ''EnvoyFilter''\<rparr>"

text \<open>\<open>config.Config\<close>: the metadata the engine sets or reads, and the payload.\<close>

record Config =
  cfgGroupVersionKind :: GroupVersionKind
  cfgName :: string
  cfgNamespace :: string
  cfgAnnotations :: Annotations
  cfgSpec :: Spec

section \<open>Wrappers of package common\<close>

record WrapperConfig =
  wcConfig :: Config
  AnnotationsConfig :: Ingress

record WrapperHTTPRoute =
  HTTPRoute :: HTTPRoute
  wrWrapperConfig :: WrapperConfig
  wrClusterId :: string
  WeightTotal :: "32 word"
  wrOther :: string

record WrapperVirtualService =
  wvVirtualService :: VirtualService
  wvWrapperConfig :: WrapperConfig
  AppRoot :: string

record WrapperGateway =
  wgGateway :: Gateway
  wgWrapperConfig :: WrapperConfig
  wgClusterId :: string
  wgHost :: string

record WrapperTrafficPolicy =
  wtTrafficPolicy :: PortTrafficPolicy
  wtWrapperConfig :: WrapperConfig

record ServiceKey =
  skNamespace :: string
  skName :: string
  skPort :: "32 word"

record WrapperDestinationRule =
  wdDestinationRule :: DestinationRule
  wdWrapperConfig :: WrapperConfig
  wdServiceKey :: ServiceKey

record Rule =
  Realm :: string
  MatchRoute :: "string list"
  ruleCredentials :: "string list"
  Encrypted :: bool

record BasicAuthRules =
  Rules :: "Rule list"

section \<open>Single-precision arithmetic\<close>

text \<open>
  \<open>normalizeWeightedCluster\<close> computes in \<open>float32\<close>.  A finite value is the rational it
  denotes; every operation rounds the exact result to the nearest value with a 24-bit
  significand, ties to even (IEEE 754 binary32, subnormals below $2^{-126}$, overflow to
  infinity from $2^{128}$).  The sign of zero is dropped: the only divisor here is a converted
  integer, whose zero is positive.
\<close>

datatype float32 = Finite rat | Infinity bool | NaN

definition pow2 :: "int \<Rightarrow> rat" where
  "pow2 e = (if 0 \<le> e then 2 ^ nat e else 1 / 2 ^ nat (- e))"

text \<open>For \<open>q > 0\<close>, the \<open>e\<close> with \<open>pow2 e \<le> q < pow2 (e + 1)\<close>.\<close>

definition exponent_of :: "rat \<Rightarrow> int" where
  "exponent_of q =
     (case quotient_of q of (a, b) \<Rightarrow>
        let e = bitlen a - bitlen b in if pow2 e \<le> q then e else e - 1)"

definition round_half_even :: "rat \<Rightarrow> int" where
  "round_half_even q =
     (let f = \<lfloor>q\<rfloor>; r = q - of_int f
      in if r < 1 / 2 then f else if 1 / 2 < r then f + 1 else if even f then f else f + 1)"

definition round_float32 :: "rat \<Rightarrow> float32" where
  "round_float32 q =
     (if q = 0 then Finite 0
      else
        let e = max (exponent_of \<bar>q\<bar>) (- 126);
            ulp = pow2 (e - 23);
            r = of_int (round_half_even (q / ulp)) * ulp
        in if pow2 128 \<le> \<bar>r\<bar> then Infinity (q < 0) else Finite r)"

fun float32_div :: "float32 \<Rightarrow> float32 \<Rightarrow> float32" where
  "float32_div (Finite x) (Finite y) =
     (if y = 0 then (if x = 0 then NaN else Infinity (x < 0)) else round_float32 (x / y))"
| "float32_div (Finite x) (Infinity t) = Finite 0"
| "float32_div (Infinity s) (Finite y) = Infinity (s \<noteq> (y < 0))"
| "float32_div (Infinity s) (Infinity t) = NaN"
| "float32_div NaN _ = NaN"
| "float32_div _ NaN = NaN"

fun float32_mul :: "float32 \<Rightarrow> float32 \<Rightarrow> float32" where
  "float32_mul (Finite x) (Finite y) = round_float32 (x * y)"
| "float32_mul (Finite x) (Infinity t) = (if x = 0 then NaN else Infinity ((x < 0) \<noteq> t))"
| "float32_mul (Infinity s) (Finite y) = (if y = 0 then NaN else Infinity (s \<noteq> (y < 0)))"
| "float32_mul (Infinity s) (Infinity t) = Infinity (s \<noteq> t)"
| "float32_mul NaN _ = NaN"
| "float32_mul _ NaN = NaN"

text \<open>Go's conversion \<open>float32(x)\<close> of an \<open>int32\<close>.\<close>

definition float32_of_int32 :: "32 word \<Rightarrow> float32" where
  "float32_of_int32 w = round_float32 (of_int (sint w))"

text \<open>
  Go's conversion \<open>int32(x)\<close> of a \<open>float32\<close> discards the fraction (truncation towards
  zero).  Where the value does not fit (also infinities and NaN) the language leaves the
  result to the implementation, which is the argument \<open>unrepresentable\<close>.
\<close>

definition int32_of_float32 :: "(float32 \<Rightarrow> 32 word) \<Rightarrow> float32 \<Rightarrow> 32 word" where
  "int32_of_float32 unrepresentable x =
     (case x of
        Finite q \<Rightarrow>
          (let t = (if 0 \<le> q then \<lfloor>q\<rfloor> else \<lceil>q\<rceil>)
           in if - (2 ^ 31) \<le> t \<and> t < 2 ^ 31 then word_of_int t else unrepresentable x)
      | _ \<Rightarrow> unrepresentable x)"

section \<open>Weight normalization\<close>

text \<open>
  Modelled from the spec: the route cache builder of package common (\<open>IngressRouteCache\<close>
  with its \<open>Update\<close>) is outside the sources at hand.  Every normalized route is recorded
  into it, so the builder is the list of the routes handed to \<open>Update\<close>, latest last.
  A nil cache is \<open>None\<close>.
\<close>

type_synonym IngressRouteCache = "WrapperHTTPRoute list"

definition IngressRouteCache_Update :: "IngressRouteCache \<Rightarrow> WrapperHTTPRoute \<Rightarrow> IngressRouteCache"
  where
  "IngressRouteCache_Update cache route = cache @ [route]"

text \<open>The loop body \<open>int32(float32(w) / float32(weightTotal) * 100)\<close>.\<close>

definition weightPercent :: "(float32 \<Rightarrow> 32 word) \<Rightarrow> 32 word \<Rightarrow> 32 word \<Rightarrow> 32 word" where
  "weightPercent unrepresentable w weightTotal =
     (let weight = float32_div (float32_of_int32 w) (float32_of_int32 weightTotal)
      in int32_of_float32 unrepresentable (float32_mul weight (round_float32 100)))"

definition normalizeWeightedCluster ::
  "(float32 \<Rightarrow> 32 word) \<Rightarrow> IngressRouteCache option \<Rightarrow> WrapperHTTPRoute \<Rightarrow>
   (IngressRouteCache option \<times> WrapperHTTPRoute) outcome" where
  "normalizeWeightedCluster unrepresentable cache route =
     (case hrRoute (HTTPRoute route) of
        [d] \<Rightarrow>
          Returns (cache, route\<lparr>HTTPRoute := (HTTPRoute route)\<lparr>hrRoute := [d\<lparr>Weight := 100\<rparr>]\<rparr>\<rparr>)
      | [] \<Rightarrow> Panics ''index out of range [0] with length 0''
      | d0 # others \<Rightarrow>
          (let declared = fold (\<lambda>routeDestination weightTotal. weightTotal + Weight routeDestination)
                 others 0;
               weightTotal = (if declared <s WeightTotal route then WeightTotal route else declared);
               others' = map (\<lambda>routeDestination.
                   routeDestination\<lparr>Weight :=
                     weightPercent unrepresentable (Weight routeDestination) weightTotal\<rparr>) others;
               sum = fold (\<lambda>routeDestination sum. sum + Weight routeDestination) others' 0;
               route' = route\<lparr>HTTPRoute :=
                   (HTTPRoute route)\<lparr>hrRoute := d0\<lparr>Weight := 100 - sum\<rparr> # others'\<rparr>\<rparr>
           in Returns (map_option (\<lambda>c. IngressRouteCache_Update c route') cache, route')))"

section \<open>Collaborators outside the sources\<close>

text \<open>
  Helpers of packages common, util and annotations that the engine calls but that are not
  among the sources at hand: naming functions, the \<open>String\<close> methods of the two name types
  and the constants of the fallback annotation.  They are arguments of the model.
\<close>

record Naming =
  GetClusterId :: "Annotations \<Rightarrow> string"
  GetRawClusterId :: "Annotations \<Rightarrow> string"
  CleanHost :: "string \<Rightarrow> string"
  CreateConvertedName :: "string list \<Rightarrow> string"
  CreateServiceFQDN :: "string \<Rightarrow> string \<Rightarrow> string"
  CreateDestinationRuleName :: "string \<Rightarrow> string \<Rightarrow> string \<Rightarrow> string"
  NamespacedName_String :: "NamespacedName \<Rightarrow> string"
  ClusterNamespacedName_String :: "ClusterNamespacedName \<Rightarrow> string"
  IstioIngressGatewayName :: string
  ClusterIdAnnotation :: string
  HostAnnotation :: string
  FallbackRouteNameSuffix :: string
  FallbackInjectHeaderRouteName :: string
  FallbackInjectFallbackService :: string

text \<open>
  The serialisers \<open>constructBasicAuthEnvoyFilter\<close> calls (\<open>json.Marshal\<close>,
  \<open>networkingutil.MessageToAny\<close>, \<open>anypb.New\<close>, \<open>util.MessageToGoGoStruct\<close>); a serialised
  message is its bytes.
\<close>

record WasmPlugin =
  wasmName :: string
  wasmFailOpen :: bool
  wasmRuntime :: string
  wasmInlineString :: string
  wasmConfiguration :: string

record HttpFilter =
  hfName :: string
  hfTypedConfig :: string

record Codec =
  jsonMarshal :: "BasicAuthRules \<Rightarrow> error + string"
  MessageToAny :: "string \<Rightarrow> string"
  anypbNew :: "WasmPlugin \<Rightarrow> error + string"
  MessageToGoGoStruct :: "HttpFilter \<Rightarrow> error + string"

section \<open>Internal active redirect\<close>

definition internalRedirectRoute ::
  "Naming \<Rightarrow> WrapperHTTPRoute \<Rightarrow> FallbackConfig \<Rightarrow> WrapperHTTPRoute" where
  "internalRedirectRoute n route fallbackConfig =
     (let typedNamespace = DefaultBackend fallbackConfig;
          name = hrName (HTTPRoute route) @ FallbackRouteNameSuffix n
      in \<lparr>HTTPRoute = (HTTPRoute route)
            \<lparr>hrName := name,
             hrInternalActiveRedirect := None,
             hrMatch :=
               [\<lparr>Uri = Some (Exact ''/''),
                 Headers = [FallbackInjectHeaderRouteName n \<mapsto> Exact name,
                            FallbackInjectFallbackService n \<mapsto>
                              Exact (NamespacedName_String n typedNamespace)],
                 matchOther = []\<rparr>],
             hrRoute :=
               [\<lparr>rdDestination =
                   Some \<lparr>Host = CreateServiceFQDN n (nnNamespace typedNamespace)
                                  (nnName typedNamespace),
                         PortNumber = Some (Port fallbackConfig)\<rparr>,
                 Weight = 100\<rparr>]\<rparr>,
          wrWrapperConfig = wrWrapperConfig route,
          wrClusterId = wrClusterId route,
          WeightTotal = 0,
          wrOther = []\<rparr>)"

text \<open>The inner loop over one host's routes; \<open>tempRoutes\<close> is the slice being rebuilt.\<close>

fun redirectRoutes ::
  "Naming \<Rightarrow> WrapperHTTPRoute list \<Rightarrow> WrapperHTTPRoute list \<Rightarrow> WrapperHTTPRoute list" where
  "redirectRoutes n [] tempRoutes = tempRoutes"
| "redirectRoutes n (route # routes) tempRoutes =
     (let tempRoutes' = tempRoutes @ [route]
      in if hrInternalActiveRedirect (HTTPRoute route) \<noteq> None then
           (case Fallback (AnnotationsConfig (wrWrapperConfig route)) of
              None \<Rightarrow> redirectRoutes n routes tempRoutes'
            | Some fallbackConfig \<Rightarrow>
                redirectRoutes n routes
                  (internalRedirectRoute n route fallbackConfig # tempRoutes'))
         else redirectRoutes n routes tempRoutes')"

text \<open>
  \<open>applyInternalActiveRedirect\<close> rebuilds the slice of every host; an iteration touches its
  own key only, so the order of the traversal does not show.
\<close>

definition applyInternalActiveRedirect ::
  "Naming \<Rightarrow> (string \<times> WrapperHTTPRoute list) list \<Rightarrow> (string \<times> WrapperHTTPRoute list) list"
  where
  "applyInternalActiveRedirect n httpRoutes =
     map (\<lambda>(host, routes). (host, redirectRoutes n routes [])) httpRoutes"

text \<open>
  The companion route the loop adds for a route, if it adds one: the route carries the
  marker and its object declares a fallback target.
\<close>

definition companionRoute :: "Naming \<Rightarrow> WrapperHTTPRoute \<Rightarrow> WrapperHTTPRoute option" where
  "companionRoute n route =
     (if hrInternalActiveRedirect (HTTPRoute route) \<noteq> None
      then map_option (internalRedirectRoute n route)
             (Fallback (AnnotationsConfig (wrWrapperConfig route)))
      else None)"

section \<open>The engine's state and its collaborators\<close>

text \<open>An event handler is a callback; only its identity matters here.\<close>

type_synonym EventHandler = nat

record ConfigKey =
  ckKind :: GroupVersionKind
  ckName :: string
  ckNamespace :: string

record PushRequest =
  Full :: bool
  ConfigsUpdated :: "ConfigKey set"
  Reason :: "string list"

type_synonym IngressDomainCache = "string list"
type_synonym IngressRouteCollection = "string list"
type_synonym IngressDomainCollection = "string list"

text \<open>\<open>annotations.GlobalContext\<close>, shared by the parsers of one pass.\<close>

record GlobalContext =
  WatchedSecrets :: "string set"
  ClusterSecretLister :: "string \<rightharpoonup> string"
  ClusterServiceList :: "string \<rightharpoonup> string"

text \<open>
  \<open>common.ConvertOptions\<close>, the accumulator of one pass.  A Go map is the list of its
  entries, with distinct keys; \<open>AList.update\<close> is the assignment \<open>m[k] = v\<close>.
\<close>

record ConvertOptions =
  HostAndPath2Ingress :: "(string \<times> Config) list"
  IngressRouteCache :: IngressRouteCache
  IngressDomainCache :: IngressDomainCache
  Gateways :: "(string \<times> WrapperGateway) list"
  VirtualServices :: "(string \<times> WrapperVirtualService) list"
  HTTPRoutes :: "(string \<times> WrapperHTTPRoute list) list"
  CanaryIngresses :: "WrapperConfig list"
  HasDefaultBackend :: bool
  Service2TrafficPolicy :: "(ServiceKey \<times> WrapperTrafficPolicy) list"

definition emptyOptions :: ConvertOptions where
  "emptyOptions =
     \<lparr>HostAndPath2Ingress = [], IngressRouteCache = [], IngressDomainCache = [], Gateways = [],
      VirtualServices = [], HTTPRoutes = [], CanaryIngresses = [], HasDefaultBackend = False,
      Service2TrafficPolicy = []\<rparr>"

text \<open>
  \<open>annotations.AnnotationHandler\<close>, an interface value held by the engine: the registry's
  \<open>Parse\<close> and its appliers.  An applier mutates the object it is given; here it returns it.
\<close>

record AnnotationHandler =
  Parse :: "Annotations \<Rightarrow> Ingress \<Rightarrow> GlobalContext \<Rightarrow> error option \<times> Ingress \<times> GlobalContext"
  ApplyGateway :: "Gateway \<Rightarrow> Ingress \<Rightarrow> Gateway"
  ApplyRoute :: "HTTPRoute \<Rightarrow> Ingress \<Rightarrow> HTTPRoute"
  ApplyVirtualServiceHandler :: "VirtualService \<Rightarrow> Ingress \<Rightarrow> VirtualService"
  ApplyTrafficPolicy :: "PortTrafficPolicy \<Rightarrow> Ingress \<Rightarrow> PortTrafficPolicy"

text \<open>
  \<open>common.IngressController\<close>, the per-cluster adapter: what its \<open>List\<close>, \<open>HasSynced\<close> and
  listers return, the handlers registered with it, and its conversion methods, each taking the
  accumulator and one wrapped object and returning the accumulator and its error.
\<close>

record IngressController =
  ctlList :: "Config list"
  ctlHasSynced :: bool
  ctlSecretLister :: string
  ctlServiceLister :: string
  ctlHandlers :: "(GroupVersionKind \<times> EventHandler) list"
  ConvertGateway :: "ConvertOptions \<Rightarrow> WrapperConfig \<Rightarrow> ConvertOptions \<times> error option"
  ConvertHTTPRoute :: "ConvertOptions \<Rightarrow> WrapperConfig \<Rightarrow> ConvertOptions \<times> error option"
  ConvertTrafficPolicy :: "ConvertOptions \<Rightarrow> WrapperConfig \<Rightarrow> ConvertOptions \<times> error option"
  ApplyDefaultBackend :: "ConvertOptions \<Rightarrow> WrapperConfig \<Rightarrow> ConvertOptions \<times> error option"
  ApplyCanaryIngress :: "ConvertOptions \<Rightarrow> WrapperConfig \<Rightarrow> ConvertOptions \<times> error option"

text \<open>
  Modelled from the spec: the adapters' own \<open>RegisterEventHandler\<close> is outside the sources at
  hand; registering wires the handler into the adapter, so it is recorded in \<open>ctlHandlers\<close>.
\<close>

definition Controller_RegisterEventHandler ::
  "GroupVersionKind \<Rightarrow> EventHandler \<Rightarrow> IngressController \<Rightarrow> IngressController" where
  "Controller_RegisterEventHandler kind f c = c\<lparr>ctlHandlers := ctlHandlers c @ [(kind, f)]\<rparr>"

text \<open>
  The order in which a \<open>range\<close> over a map visits the entries is left unspecified by the
  language and chosen afresh at every \<open>range\<close> statement.  Each walk over a map whose order
  can show in a result has a name, and the runtime makes one choice per walk of a pass.  A
  walk whose iterations read and write nothing but their own entry is a \<open>map\<close> over the
  entries instead.
\<close>

datatype walk =
    ListAdapters
  | HasSyncedAdapters
  | GatewayOutput
  | NormalizeHosts
  | VirtualServiceOutput
  | BasicAuthRoutes
  | BasicAuthRules
  | TrafficPolicyMerge
  | DestinationRuleOutput

text \<open>
  A choice is a list of numbers: the walk visits the entries in the order \<open>goRange\<close> builds
  from it, placing the first entry at the position the first number names among the others,
  which are ordered by the rest of the choice.  Whatever the choice, the result is a
  permutation of the entries, and every permutation is the result of some choice
  (\<open>mset_goRange\<close> and \<open>goRange_complete\<close> below).
\<close>

fun insertAt :: "nat \<Rightarrow> 'a \<Rightarrow> 'a list \<Rightarrow> 'a list" where
  "insertAt 0 x ys = x # ys"
| "insertAt (Suc i) x [] = [x]"
| "insertAt (Suc i) x (y # ys) = y # insertAt i x ys"

fun goRange :: "nat list \<Rightarrow> 'a list \<Rightarrow> 'a list" where
  "goRange choice [] = []"
| "goRange [] (entry # entries) = entry # entries"
| "goRange (c # choice) (entry # entries) =
     insertAt (c mod Suc (length entries)) entry (goRange choice entries)"

text \<open>
  What the Go runtime and the remaining helpers decide: \<open>rangeOrder\<close> is the runtime's choice
  for each walk, and \<open>unrepresentable\<close> is the platform's result of an out-of-range
  conversion to \<open>int32\<close>.
\<close>

record Runtime =
  naming :: Naming
  codec :: Codec
  SortIngressByCreationTime :: "Config list \<Rightarrow> Config list"
  IngressRouteCache_Extract :: "IngressRouteCache \<Rightarrow> IngressRouteCollection"
  IngressDomainCache_Extract :: "IngressDomainCache \<Rightarrow> IngressDomainCollection"
  rangeOrder :: "walk \<Rightarrow> nat list"
  unrepresentable :: "float32 \<Rightarrow> 32 word"

text \<open>
  \<open>IngressConfig\<close>.  The mutex, the Kubernetes client and the watch error handler are left
  out; \<open>XDSUpdater\<close> is the sequence of push requests handed to \<open>ConfigUpdate\<close> so far.
\<close>

record IngressConfig =
  remoteIngressControllers :: "(string \<times> IngressController) list"
  ingressRouteCache :: IngressRouteCollection
  ingressDomainCache :: IngressDomainCollection
  virtualServiceHandlers :: "EventHandler list"
  gatewayHandlers :: "EventHandler list"
  destinationRuleHandlers :: "EventHandler list"
  envoyFilterHandlers :: "EventHandler list"
  cachedEnvoyFilters :: "Config list"
  watchedSecretSet :: "string set"
  XDSUpdater :: "PushRequest list"
  annotationHandler :: AnnotationHandler
  globalGatewayName :: string
  namespace :: string
  clusterId :: string

section \<open>Registration, liveness and secret reflection\<close>

definition RegisterEventHandler ::
  "GroupVersionKind \<Rightarrow> EventHandler \<Rightarrow> IngressConfig \<Rightarrow> IngressConfig" where
  "RegisterEventHandler kind f m =
     (if kind \<noteq> gvk_VirtualService \<and> kind \<noteq> gvk_Gateway \<and>
         kind \<noteq> gvk_DestinationRule \<and> kind \<noteq> gvk_EnvoyFilter
      then m
      else
        let m' =
              (if kind = gvk_VirtualService
                 then m\<lparr>virtualServiceHandlers := virtualServiceHandlers m @ [f]\<rparr>
               else if kind = gvk_Gateway
                 then m\<lparr>gatewayHandlers := gatewayHandlers m @ [f]\<rparr>
               else if kind = gvk_DestinationRule
                 then m\<lparr>destinationRuleHandlers := destinationRuleHandlers m @ [f]\<rparr>
               else if kind = gvk_EnvoyFilter
                 then m\<lparr>envoyFilterHandlers := envoyFilterHandlers m @ [f]\<rparr>
               else m)
        in m'\<lparr>remoteIngressControllers :=
                map (\<lambda>(cid, remoteIngressController).
                       (cid, Controller_RegisterEventHandler kind f remoteIngressController))
                  (remoteIngressControllers m')\<rparr>)"

text \<open>The loop returns false at the first adapter that is not synced, true after the last.\<close>

fun allSynced :: "(string \<times> IngressController) list \<Rightarrow> bool" where
  "allSynced [] = True"
| "allSynced ((cid, remoteIngressController) # rest) =
     (if \<not> ctlHasSynced remoteIngressController then False else allSynced rest)"

definition HasSynced :: "Runtime \<Rightarrow> IngressConfig \<Rightarrow> bool" where
  "HasSynced rt m =
     allSynced (goRange (rangeOrder rt HasSyncedAdapters) (remoteIngressControllers m))"

definition secretPush :: "ClusterNamespacedName \<Rightarrow> GroupVersionKind \<Rightarrow> PushRequest" where
  "secretPush clusterNamespacedName kind =
     \<lparr>Full = True,
      ConfigsUpdated = {\<lparr>ckKind = kind, ckName = cnnName clusterNamespacedName,
                         ckNamespace = cnnNamespace clusterNamespacedName\<rparr>},
      Reason = [''auth-secret-change'']\<rparr>"

definition ReflectSecretChanges ::
  "Naming \<Rightarrow> ClusterNamespacedName \<Rightarrow> IngressConfig \<Rightarrow> IngressConfig" where
  "ReflectSecretChanges n clusterNamespacedName m =
     (let hit = (ClusterNamespacedName_String n clusterNamespacedName \<in> watchedSecretSet m)
      in if hit
         then m\<lparr>XDSUpdater := XDSUpdater m @
                  [secretPush clusterNamespacedName gvk_VirtualService,
                   secretPush clusterNamespacedName gvk_EnvoyFilter]\<rparr>
         else m)"

text \<open>The mutation entry points: each returns the empty revision and the error.\<close>

definition Create :: "IngressConfig \<Rightarrow> Config \<Rightarrow> string \<times> error option" where
  "Create m cfg = ([], Some ErrUnsupportedOp)"

definition Update :: "IngressConfig \<Rightarrow> Config \<Rightarrow> string \<times> error option" where
  "Update m cfg = ([], Some ErrUnsupportedOp)"

definition UpdateStatus :: "IngressConfig \<Rightarrow> Config \<Rightarrow> string \<times> error option" where
  "UpdateStatus m cfg = ([], Some ErrUnsupportedOp)"

definition Patch :: "IngressConfig \<Rightarrow> Config \<Rightarrow> (Config \<Rightarrow> Config) \<Rightarrow> string \<times> error option"
  where
  "Patch m cfg patchFunc = ([], Some ErrUnsupportedOp)"

definition Delete ::
  "IngressConfig \<Rightarrow> GroupVersionKind \<Rightarrow> string \<Rightarrow> string \<Rightarrow> string option \<Rightarrow> error option"
  where
  "Delete m typ name ns resourceVersion = Some ErrUnsupportedOp"

section \<open>The conversion passes\<close>

definition createWrapperConfigs ::
  "Runtime \<Rightarrow> IngressConfig \<Rightarrow> Config list \<Rightarrow> IngressConfig \<times> WrapperConfig list" where
  "createWrapperConfigs rt m configs =
     (let globalContext =
            \<lparr>WatchedSecrets = {},
             ClusterSecretLister =
               map_of (map (\<lambda>(cid, controller). (cid, ctlSecretLister controller))
                 (remoteIngressControllers m)),
             ClusterServiceList =
               map_of (map (\<lambda>(cid, controller). (cid, ctlServiceLister controller))
                 (remoteIngressControllers m))\<rparr>;
          step = (\<lambda>rawConfig (wrapperConfigs, globalContext).
            let annotationsConfig =
                  \<lparr>Namespace = cfgNamespace rawConfig,
                   Name = cfgName rawConfig,
                   RawClusterId = GetRawClusterId (naming rt) (cfgAnnotations rawConfig),
                   ClusterId = GetClusterId (naming rt) (cfgAnnotations rawConfig),
                   localRateLimit = None, DownstreamTLS = None, Auth = None, Fallback = None\<rparr>;
                parsed = Parse (annotationHandler m) (cfgAnnotations rawConfig) annotationsConfig
                           globalContext
            in (wrapperConfigs @
                  [\<lparr>wcConfig = rawConfig, AnnotationsConfig = fst (snd parsed)\<rparr>],
                snd (snd parsed)));
          result = fold step configs ([], globalContext)
      in (m\<lparr>watchedSecretSet := WatchedSecrets (snd result)\<rparr>, fst result))"

text \<open>
  The head shared by the conversion loops: look the object's cluster up among the adapters,
  skip the object when there is none, call the adapter's method and go on whatever error it
  returns (the error is logged).
\<close>

definition convertEach ::
  "(IngressController \<Rightarrow> ConvertOptions \<Rightarrow> WrapperConfig \<Rightarrow> ConvertOptions \<times> error option) \<Rightarrow>
   Naming \<Rightarrow> IngressConfig \<Rightarrow> WrapperConfig list \<Rightarrow> ConvertOptions \<Rightarrow> ConvertOptions" where
  "convertEach method n m configs convertOptions =
     fold (\<lambda>cfg convertOptions.
            case map_of (remoteIngressControllers m)
                   (GetClusterId n (cfgAnnotations (wcConfig cfg))) of
              None \<Rightarrow> convertOptions
            | Some ingressController \<Rightarrow> fst (method ingressController convertOptions cfg))
       configs convertOptions"

definition convertGateways ::
  "Runtime \<Rightarrow> IngressConfig \<Rightarrow> WrapperConfig list \<Rightarrow> IngressConfig \<times> Config list" where
  "convertGateways rt m configs =
     (let n = naming rt;
          convertOptions = convertEach ConvertGateway n m configs emptyOptions;
          gateways =
            map (\<lambda>(host, wrapperGateway).
                   (host, wrapperGateway\<lparr>wgGateway :=
                      ApplyGateway (annotationHandler m) (wgGateway wrapperGateway)
                        (AnnotationsConfig (wgWrapperConfig wrapperGateway))\<rparr>))
              (Gateways convertOptions);
          m' = m\<lparr>ingressDomainCache :=
                   IngressDomainCache_Extract rt (IngressDomainCache convertOptions)\<rparr>;
          out =
            map (\<lambda>(host, gateway).
                   \<lparr>cfgGroupVersionKind = gvk_Gateway,
                    cfgName = CreateConvertedName n
                      [IstioIngressGatewayName n, CleanHost n (wgHost gateway)],
                    cfgNamespace = namespace m,
                    cfgAnnotations = [ClusterIdAnnotation n \<mapsto> wgClusterId gateway,
                                      HostAnnotation n \<mapsto> wgHost gateway],
                    cfgSpec = GatewaySpec (wgGateway gateway)\<rparr>)
              (goRange (rangeOrder rt GatewayOutput) gateways)
      in (m', out))"

definition applyCanaryIngresses ::
  "Naming \<Rightarrow> IngressConfig \<Rightarrow> ConvertOptions \<Rightarrow> ConvertOptions" where
  "applyCanaryIngresses n m convertOptions =
     (if length (CanaryIngresses convertOptions) = 0 then convertOptions
      else convertEach ApplyCanaryIngress n m (CanaryIngresses convertOptions) convertOptions)"

text \<open>The inner loop of the normalization pass over one host's routes.\<close>

fun normalizeRoutes ::
  "(float32 \<Rightarrow> 32 word) \<Rightarrow> IngressRouteCache \<Rightarrow> WrapperHTTPRoute list \<Rightarrow>
   (IngressRouteCache \<times> WrapperHTTPRoute list) outcome" where
  "normalizeRoutes u cache [] = Returns (cache, [])"
| "normalizeRoutes u cache (route # routes) =
     (case normalizeWeightedCluster u (Some cache) route of
        Panics p \<Rightarrow> Panics p
      | Returns (cache', route') \<Rightarrow>
          (case normalizeRoutes u (case cache' of None \<Rightarrow> cache | Some c \<Rightarrow> c) routes of
             Panics p \<Rightarrow> Panics p
           | Returns (cache'', routes') \<Rightarrow> Returns (cache'', route' # routes')))"

text \<open>
  The normalization pass.  The routes are objects mutated in place, so each host ends with
  its own routes normalized wherever the walk meets it; the pass panics when some route
  has no destination.  The order of the walk shows in the route cache only, which records
  the normalized routes host by host as the walk meets them.
\<close>

fun normalizeEntries ::
  "(float32 \<Rightarrow> 32 word) \<Rightarrow> (string \<times> WrapperHTTPRoute list) list \<Rightarrow>
   (string \<times> WrapperHTTPRoute list) list outcome" where
  "normalizeEntries u [] = Returns []"
| "normalizeEntries u ((host, routes) # rest) =
     (case normalizeRoutes u [] routes of
        Panics p \<Rightarrow> Panics p
      | Returns (recorded, routes') \<Rightarrow>
          (case normalizeEntries u rest of
             Panics p \<Rightarrow> Panics p
           | Returns rest' \<Rightarrow> Returns ((host, routes') # rest')))"

definition normalizeHosts ::
  "(float32 \<Rightarrow> 32 word) \<Rightarrow> nat list \<Rightarrow> ConvertOptions \<Rightarrow> ConvertOptions outcome" where
  "normalizeHosts u choice convertOptions =
     (case normalizeEntries u (HTTPRoutes convertOptions) of
        Panics p \<Rightarrow> Panics p
      | Returns entries \<Rightarrow>
          Returns (convertOptions
            \<lparr>HTTPRoutes := entries,
             IngressRouteCache :=
               fold (\<lambda>(host, routes) cache.
                       fold (\<lambda>route cache. IngressRouteCache_Update cache route) routes cache)
                 (goRange choice entries) (IngressRouteCache convertOptions)\<rparr>))"

definition appRootRoute :: "Naming \<Rightarrow> string \<Rightarrow> WrapperVirtualService \<Rightarrow> WrapperHTTPRoute" where
  "appRootRoute n host wrapVS =
     \<lparr>HTTPRoute =
        \<lparr>hrName = CreateConvertedName n [host, ''app-root''],
         hrMatch = [\<lparr>Uri = Some (Exact ''/''), Headers = Map.empty, matchOther = []\<rparr>],
         hrRoute = [],
         hrRedirect = Some \<lparr>RedirectCode = 302, redirectUri = AppRoot wrapVS\<rparr>,
         hrInternalActiveRedirect = None,
         hrOther = []\<rparr>,
      wrWrapperConfig = wvWrapperConfig wrapVS,
      wrClusterId = ClusterId (AnnotationsConfig (wvWrapperConfig wrapVS)),
      WeightTotal = 0,
      wrOther = []\<rparr>"

text \<open>
  \<open>applyAppRoot\<close> walks the virtual services; an iteration writes the route list of its own
  host only, so the order of the walk does not show in the resulting map.
\<close>

definition applyAppRoot :: "Naming \<Rightarrow> ConvertOptions \<Rightarrow> ConvertOptions" where
  "applyAppRoot n convertOptions =
     fold (\<lambda>(host, wrapVS) convertOptions.
            if AppRoot wrapVS \<noteq> [] then
              convertOptions\<lparr>HTTPRoutes :=
                AList.update host
                  (appRootRoute n host wrapVS #
                     (case map_of (HTTPRoutes convertOptions) host of
                        None \<Rightarrow> []
                      | Some routes \<Rightarrow> routes))
                  (HTTPRoutes convertOptions)\<rparr>
            else convertOptions)
       (VirtualServices convertOptions) convertOptions"

subsection \<open>Filter derivation\<close>

definition strings_HasSuffix :: "string \<Rightarrow> string \<Rightarrow> bool" where
  "strings_HasSuffix s suffix =
     (length suffix \<le> length s \<and> drop (length s - length suffix) s = suffix)"

definition constructBasicAuthEnvoyFilter ::
  "Codec \<Rightarrow> Naming \<Rightarrow> BasicAuthRules \<Rightarrow> string \<Rightarrow> error + Config" where
  "constructBasicAuthEnvoyFilter c n rules ns =
     (case jsonMarshal c rules of
        Inl err \<Rightarrow> Inl err
      | Inr rulesStr \<Rightarrow>
          (let wasm = \<lparr>wasmName = ''basic-auth'', wasmFailOpen = True,
                       wasmRuntime = ''envoy.wasm.runtime.null'',
                       wasmInlineString = ''envoy.wasm.basic_auth'',
                       wasmConfiguration = MessageToAny c rulesStr\<rparr>
           in case anypbNew c wasm of
                Inl err \<Rightarrow> Inl err
              | Inr wasmAny \<Rightarrow>
                  (let typedConfig = \<lparr>hfName = ''basic-auth'', hfTypedConfig = wasmAny\<rparr>
                   in case MessageToGoGoStruct c typedConfig of
                        Inl err \<Rightarrow> Inl err
                      | Inr gogoTypedConfig \<Rightarrow>
                          Inr \<lparr>cfgGroupVersionKind = gvk_EnvoyFilter,
                               cfgName = CreateConvertedName n
                                 [IstioIngressGatewayName n, ''basic-auth''],
                               cfgNamespace = ns,
                               cfgAnnotations = Map.empty,
                               cfgSpec = EnvoyFilterSpec
                                 \<lparr>ConfigPatches =
                                    [\<lparr>patchApplyTo = HTTP_FILTER,
                                      patchContext = GATEWAY,
                                      patchFilterName =
                                        ''envoy.filters.network.http_connection_manager'',
                                      patchSubFilterName = ''envoy.filters.http.cors'',
                                      patchOperation = INSERT_AFTER,
                                      patchValue = gogoTypedConfig\<rparr>]\<rparr>\<rparr>)))"

text \<open>The inner loop of \<open>convertEnvoyFilter\<close> over one host's routes.\<close>

fun collectBasicAuth ::
  "Naming \<Rightarrow> WrapperHTTPRoute list \<Rightarrow> (string \<times> Rule) list \<Rightarrow> (string \<times> Rule) list" where
  "collectBasicAuth n [] mappings = mappings"
| "collectBasicAuth n (route # routes) mappings =
     (if strings_HasSuffix (hrName (HTTPRoute route)) ''app-root''
      then collectBasicAuth n routes mappings
      else
        (case Auth (AnnotationsConfig (wrWrapperConfig route)) of
           None \<Rightarrow> collectBasicAuth n routes mappings
         | Some auth \<Rightarrow>
             (let key = ClusterNamespacedName_String n (AuthSecret auth) @ ''/'' @ AuthRealm auth
              in case map_of mappings key of
                   None \<Rightarrow>
                     collectBasicAuth n routes
                       (AList.update key
                          \<lparr>Realm = AuthRealm auth, MatchRoute = [hrName (HTTPRoute route)],
                           ruleCredentials = Credentials auth, Encrypted = True\<rparr>
                          mappings)
                 | Some rule \<Rightarrow>
                     collectBasicAuth n routes
                       (AList.update key
                          (rule\<lparr>MatchRoute := MatchRoute rule @ [hrName (HTTPRoute route)]\<rparr>)
                          mappings))))"

text \<open>The first loop of \<open>convertEnvoyFilter\<close>: the rules by credential set and realm.\<close>

definition basicAuthMappings :: "Runtime \<Rightarrow> ConvertOptions \<Rightarrow> (string \<times> Rule) list" where
  "basicAuthMappings rt convertOptions =
     fold (\<lambda>(host, routes) mappings. collectBasicAuth (naming rt) routes mappings)
       (goRange (rangeOrder rt BasicAuthRoutes) (HTTPRoutes convertOptions)) []"

definition convertEnvoyFilter :: "Runtime \<Rightarrow> ConvertOptions \<Rightarrow> IngressConfig \<Rightarrow> IngressConfig"
  where
  "convertEnvoyFilter rt convertOptions m =
     (let mappings = basicAuthMappings rt convertOptions;
          envoyFilters =
            (if length mappings > 0 then
               (let rules = \<lparr>Rules = map snd (goRange (rangeOrder rt BasicAuthRules) mappings)\<rparr>
                in case constructBasicAuthEnvoyFilter (codec rt) (naming rt) rules (namespace m)
                   of Inl err \<Rightarrow> []
                    | Inr basicAuth \<Rightarrow> [basicAuth])
             else [])
      in m\<lparr>cachedEnvoyFilters := envoyFilters\<rparr>)"

subsection \<open>Route derivation\<close>

text \<open>
  The assembly loop.  A host with routes but without an entry in \<open>VirtualServices\<close> is
  logged, and the nil wrapper is dereferenced right after.
\<close>

fun assembleVirtualServices ::
  "Naming \<Rightarrow> IngressConfig \<Rightarrow> (string \<times> WrapperVirtualService) list \<Rightarrow>
   (string \<times> WrapperHTTPRoute list) list \<Rightarrow> Config list outcome" where
  "assembleVirtualServices n m virtualServices [] = Returns []"
| "assembleVirtualServices n m virtualServices ((host, routes) # rest) =
     (case routes of
        [] \<Rightarrow> assembleVirtualServices n m virtualServices rest
      | firstRoute # _ \<Rightarrow>
          (let cleanHost = CleanHost n host;
               gateways =
                 [namespace m @ ''/'' @ CreateConvertedName n [clusterId m, cleanHost],
                  CreateConvertedName n [IstioIngressGatewayName n, cleanHost]] @
                 (if host \<noteq> ''*'' then [globalGatewayName m] else [])
           in case map_of virtualServices host of
                None \<Rightarrow> Panics ''invalid memory address or nil pointer dereference''
              | Some wrapperVS \<Rightarrow>
                  (let vs = (wvVirtualService wrapperVS)
                         \<lparr>vsGateways := gateways,
                          vsHttp := vsHttp (wvVirtualService wrapperVS) @ map HTTPRoute routes\<rparr>;
                       cfg =
                         \<lparr>cfgGroupVersionKind = gvk_VirtualService,
                          cfgName = CreateConvertedName n
                            [IstioIngressGatewayName n,
                             cfgNamespace (wcConfig (wrWrapperConfig firstRoute)),
                             cfgName (wcConfig (wrWrapperConfig firstRoute)),
                             cleanHost],
                          cfgNamespace = namespace m,
                          cfgAnnotations = [ClusterIdAnnotation n \<mapsto> wrClusterId firstRoute],
                          cfgSpec = VirtualServiceSpec vs\<rparr>
                   in case assembleVirtualServices n m virtualServices rest of
                        Panics p \<Rightarrow> Panics p
                      | Returns out \<Rightarrow> Returns (cfg # out))))"

definition convertVirtualService ::
  "Runtime \<Rightarrow> IngressConfig \<Rightarrow> WrapperConfig list \<Rightarrow> (IngressConfig \<times> Config list) outcome"
  where
  "convertVirtualService rt m configs =
     (let n = naming rt;
          opts1 = convertEach ConvertHTTPRoute n m configs emptyOptions;
          opts2 = opts1\<lparr>HTTPRoutes :=
            map (\<lambda>(host, routes).
                   (host, map (\<lambda>route. route\<lparr>HTTPRoute :=
                       ApplyRoute (annotationHandler m) (HTTPRoute route)
                         (AnnotationsConfig (wrWrapperConfig route))\<rparr>) routes))
              (HTTPRoutes opts1)\<rparr>;
          opts3 = (if length configs > length (CanaryIngresses opts2)
                   then applyCanaryIngresses n m opts2 else opts2)
      in case normalizeHosts (unrepresentable rt) (rangeOrder rt NormalizeHosts) opts3 of
           Panics p \<Rightarrow> Panics p
         | Returns opts4 \<Rightarrow>
             (let opts5 = (if HasDefaultBackend opts4
                           then convertEach ApplyDefaultBackend n m configs opts4 else opts4);
                  opts6 = opts5\<lparr>VirtualServices :=
                    map (\<lambda>(host, virtualService).
                           (host, virtualService\<lparr>wvVirtualService :=
                              ApplyVirtualServiceHandler (annotationHandler m)
                                (wvVirtualService virtualService)
                                (AnnotationsConfig (wvWrapperConfig virtualService))\<rparr>))
                      (VirtualServices opts5)\<rparr>;
                  opts7 = applyAppRoot n opts6;
                  opts8 = opts7\<lparr>HTTPRoutes := applyInternalActiveRedirect n (HTTPRoutes opts7)\<rparr>;
                  m' = m\<lparr>ingressRouteCache :=
                           IngressRouteCache_Extract rt (IngressRouteCache opts8)\<rparr>
              in case assembleVirtualServices n m' (VirtualServices opts8)
                        (goRange (rangeOrder rt VirtualServiceOutput) (HTTPRoutes opts8)) of
                   Panics p \<Rightarrow> Panics p
                 | Returns out \<Rightarrow> Returns (convertEnvoyFilter rt opts8 m', out)))"

subsection \<open>Traffic policy derivation\<close>

definition mergeTrafficPolicy ::
  "Naming \<Rightarrow> ServiceKey \<Rightarrow> WrapperTrafficPolicy \<Rightarrow> (string \<times> WrapperDestinationRule) list \<Rightarrow>
   (string \<times> WrapperDestinationRule) list" where
  "mergeTrafficPolicy n key wrapperTrafficPolicy destinationRules =
     (let serviceName = CreateServiceFQDN n (skNamespace key) (skName key);
          dr = (case map_of destinationRules serviceName of
                  None \<Rightarrow>
                    \<lparr>wdDestinationRule =
                       \<lparr>drHost = serviceName,
                        drPortLevelSettings = [wtTrafficPolicy wrapperTrafficPolicy]\<rparr>,
                     wdWrapperConfig = wtWrapperConfig wrapperTrafficPolicy,
                     wdServiceKey = key\<rparr>
                | Some dr \<Rightarrow>
                    dr\<lparr>wdDestinationRule := (wdDestinationRule dr)
                         \<lparr>drPortLevelSettings :=
                            drPortLevelSettings (wdDestinationRule dr) @
                              [wtTrafficPolicy wrapperTrafficPolicy]\<rparr>\<rparr>)
      in AList.update serviceName dr destinationRules)"

definition convertDestinationRule ::
  "Runtime \<Rightarrow> IngressConfig \<Rightarrow> WrapperConfig list \<Rightarrow> Config list" where
  "convertDestinationRule rt m configs =
     (let n = naming rt;
          convertOptions = convertEach ConvertTrafficPolicy n m configs emptyOptions;
          policies =
            map (\<lambda>(key, wrapperTrafficPolicy).
                   (key, wrapperTrafficPolicy\<lparr>wtTrafficPolicy :=
                      ApplyTrafficPolicy (annotationHandler m)
                        (wtTrafficPolicy wrapperTrafficPolicy)
                        (AnnotationsConfig (wtWrapperConfig wrapperTrafficPolicy))\<rparr>))
              (Service2TrafficPolicy convertOptions);
          destinationRules =
            fold (\<lambda>(key, wrapperTrafficPolicy). mergeTrafficPolicy n key wrapperTrafficPolicy)
              (goRange (rangeOrder rt TrafficPolicyMerge) policies) []
      in map (\<lambda>(serviceName, dr).
                \<lparr>cfgGroupVersionKind = gvk_DestinationRule,
                 cfgName = CreateConvertedName n
                   [IstioIngressGatewayName n,
                    CreateDestinationRuleName n (clusterId m) (skNamespace (wdServiceKey dr))
                      (skName (wdServiceKey dr))],
                 cfgNamespace = namespace m,
                 cfgAnnotations = Map.empty,
                 cfgSpec = DestinationRuleSpec (wdDestinationRule dr)\<rparr>)
           (goRange (rangeOrder rt DestinationRuleOutput) destinationRules))"

section \<open>The query entry point\<close>

text \<open>
  \<open>List\<close> returns the compiled objects and the error, as the Go function does, together
  with the engine's state after the call.
\<close>

definition IngressConfig_List ::
  "Runtime \<Rightarrow> GroupVersionKind \<Rightarrow> string \<Rightarrow> IngressConfig \<Rightarrow>
   (IngressConfig \<times> Config list \<times> error option) outcome" where
  "IngressConfig_List rt typ ns m =
     (if typ \<noteq> gvk_Gateway \<and> typ \<noteq> gvk_VirtualService \<and>
         typ \<noteq> gvk_DestinationRule \<and> typ \<noteq> gvk_EnvoyFilter
      then Returns (m, [], Some ErrUnsupportedOp)
      else if ns \<noteq> [] then Returns (m, [], Some ErrUnsupportedOp)
      else if typ = gvk_EnvoyFilter then Returns (m, cachedEnvoyFilters m, None)
      else
        (let configs =
               concat (map (\<lambda>(cid, ingressController). ctlList ingressController)
                 (goRange (rangeOrder rt ListAdapters) (remoteIngressControllers m)));
             wrapped = createWrapperConfigs rt m (SortIngressByCreationTime rt configs);
             m' = fst wrapped;
             wrapperConfigs = snd wrapped
         in if typ = gvk_Gateway then
              (case convertGateways rt m' wrapperConfigs of
                 (m'', out) \<Rightarrow> Returns (m'', out, None))
            else if typ = gvk_VirtualService then
              (case convertVirtualService rt m' wrapperConfigs of
                 Panics p \<Rightarrow> Panics p
               | Returns (m'', out) \<Rightarrow> Returns (m'', out, None))
            else if typ = gvk_DestinationRule then
              Returns (m', convertDestinationRule rt m' wrapperConfigs, None)
            else Returns (m', [], None)))"

section \<open>Construction of the engine\<close>

text \<open>
  \<open>NewIngressConfig\<close>.  The annotation handler manager it creates is outside the sources at
  hand and is an argument; every field the function does not set has its zero value.
\<close>

definition NewIngressConfig ::
  "Naming \<Rightarrow> AnnotationHandler \<Rightarrow> PushRequest list \<Rightarrow> string \<Rightarrow> string \<Rightarrow> IngressConfig" where
  "NewIngressConfig n handler updater ns cluster =
     (let cluster' = (if cluster = ''Kubernetes'' then [] else cluster)
      in \<lparr>remoteIngressControllers = [],
          ingressRouteCache = [], ingressDomainCache = [],
          virtualServiceHandlers = [], gatewayHandlers = [], destinationRuleHandlers = [],
          envoyFilterHandlers = [], cachedEnvoyFilters = [],
          watchedSecretSet = {},
          XDSUpdater = updater,
          annotationHandler = handler,
          globalGatewayName = ns @ ''/'' @ CreateConvertedName n [cluster', ''global''],
          namespace = ns,
          clusterId = cluster'\<rparr>)"

section \<open>Comparing two runs\<close>

text \<open>
  Two engine states are the same deployment when they hold the same adapters, apart from the
  handlers registered with them, the same annotation handler and the same identity fields.
  The caches, the watched-secret set, the registered handlers and the pushes made so far may
  differ.
\<close>

definition sameDeployment :: "IngressConfig \<Rightarrow> IngressConfig \<Rightarrow> bool" where
  "sameDeployment m1 m2 =
     (map (\<lambda>(cid, c). (cid, c\<lparr>ctlHandlers := []\<rparr>)) (remoteIngressControllers m1) =
      map (\<lambda>(cid, c). (cid, c\<lparr>ctlHandlers := []\<rparr>)) (remoteIngressControllers m2) \<and>
      annotationHandler m1 = annotationHandler m2 \<and>
      namespace m1 = namespace m2 \<and>
      clusterId m1 = clusterId m2 \<and>
      globalGatewayName m1 = globalGatewayName m2)"

text \<open>
  A compiled object up to the order of the lists merged inside it: the port-level settings of
  a destination rule count as a multiset.  Two results of \<open>List\<close> are compared as the
  multisets of their objects, with the error.
\<close>

definition upToOrder ::
  "Config \<Rightarrow> GroupVersionKind \<times> string \<times> string \<times> Annotations \<times>
     ((string \<times> PortTrafficPolicy multiset) + Spec)" where
  "upToOrder cfg =
     (cfgGroupVersionKind cfg, cfgName cfg, cfgNamespace cfg, cfgAnnotations cfg,
      case cfgSpec cfg of
        DestinationRuleSpec dr \<Rightarrow> Inl (drHost dr, mset (drPortLevelSettings dr))
      | IngressSpec x \<Rightarrow> Inr (IngressSpec x)
      | GatewaySpec x \<Rightarrow> Inr (GatewaySpec x)
      | VirtualServiceSpec x \<Rightarrow> Inr (VirtualServiceSpec x)
      | EnvoyFilterSpec x \<Rightarrow> Inr (EnvoyFilterSpec x))"

definition compiledUpToOrder ::
  "(IngressConfig \<times> Config list \<times> error option) outcome \<Rightarrow>
   ((GroupVersionKind \<times> string \<times> string \<times> Annotations \<times>
      ((string \<times> PortTrafficPolicy multiset) + Spec)) multiset \<times> error option) outcome" where
  "compiledUpToOrder result =
     map_outcome (\<lambda>(m, out, err). (mset (map upToOrder out), err)) result"

text \<open>
  What the comparison asks of the collaborators.  The sorted object list does not depend on
  the order in which the adapters were walked (as when no two objects tie in the sort).  An
  adapter's default-backend step hands the route cache on as it got it and does not read it.
  Among the traffic policies the adapters contribute, the service name built from a key's
  namespace and name determines both.
\<close>

definition sortIgnoresAdapterOrder :: "Runtime \<Rightarrow> IngressConfig \<Rightarrow> bool" where
  "sortIgnoresAdapterOrder rt m =
     (\<forall>adapters. mset adapters = mset (remoteIngressControllers m) \<longrightarrow>
        SortIngressByCreationTime rt
          (concat (map (\<lambda>(cid, ingressController). ctlList ingressController) adapters)) =
        SortIngressByCreationTime rt
          (concat (map (\<lambda>(cid, ingressController). ctlList ingressController)
             (remoteIngressControllers m))))"

definition defaultBackendIgnoresRouteCache :: "IngressConfig \<Rightarrow> bool" where
  "defaultBackendIgnoresRouteCache m =
     (\<forall>(cid, c) \<in> set (remoteIngressControllers m). \<forall>convertOptions cache cfg.
        fst (ApplyDefaultBackend c (convertOptions\<lparr>IngressRouteCache := cache\<rparr>) cfg) =
        (fst (ApplyDefaultBackend c convertOptions cfg))\<lparr>IngressRouteCache := cache\<rparr>)"

definition serviceNameDeterminesKey :: "Runtime \<Rightarrow> IngressConfig \<Rightarrow> bool" where
  "serviceNameDeterminesKey rt m =
     (let configs = snd (createWrapperConfigs rt m
            (SortIngressByCreationTime rt
               (concat (map (\<lambda>(cid, ingressController). ctlList ingressController)
                  (remoteIngressControllers m)))));
          policies = Service2TrafficPolicy
            (convertEach ConvertTrafficPolicy (naming rt) m configs emptyOptions)
      in \<forall>(key, policy) \<in> set policies. \<forall>(key', policy') \<in> set policies.
           CreateServiceFQDN (naming rt) (skNamespace key) (skName key) =
           CreateServiceFQDN (naming rt) (skNamespace key') (skName key') \<longrightarrow>
           skNamespace key = skNamespace key' \<and> skName key = skName key')"

section \<open>An example deployment\<close>

text \<open>
  Concrete collaborators for the examples below: one adapter for the local cluster (cluster
  id \<open>[]\<close>) whose objects all route the host kept in their payload to one backend service,
  a handler that decodes the basic-auth realm only, and naming helpers that join their
  arguments.
\<close>

fun joinWith :: "string \<Rightarrow> string list \<Rightarrow> string" where
  "joinWith sep [] = []"
| "joinWith sep [x] = x"
| "joinWith sep (x # y # ys) = x @ sep @ joinWith sep (y # ys)"

definition exampleNaming :: Naming where
  "exampleNaming =
     \<lparr>GetClusterId = (\<lambda>a. case a ''cluster-id'' of None \<Rightarrow> [] | Some c \<Rightarrow> c),
      GetRawClusterId = (\<lambda>a. case a ''cluster-id'' of None \<Rightarrow> [] | Some c \<Rightarrow> c),
      CleanHost = (\<lambda>host. host),
      CreateConvertedName = joinWith ''-'',
      CreateServiceFQDN = (\<lambda>ns name. name @ ''.'' @ ns),
      CreateDestinationRuleName = (\<lambda>cluster ns name. joinWith ''-'' [cluster, ns, name]),
      NamespacedName_String = (\<lambda>k. nnNamespace k @ ''/'' @ nnName k),
      ClusterNamespacedName_String =
        (\<lambda>k. cnnClusterId k @ ''/'' @ cnnNamespace k @ ''/'' @ cnnName k),
      IstioIngressGatewayName = ''gw'',
      ClusterIdAnnotation = ''cluster-id'',
      HostAnnotation = ''host'',
      FallbackRouteNameSuffix = ''-fallback'',
      FallbackInjectHeaderRouteName = ''x-route-name'',
      FallbackInjectFallbackService = ''x-fallback-service''\<rparr>"

definition exampleCodec :: Codec where
  "exampleCodec =
     \<lparr>jsonMarshal = (\<lambda>rules. Inr (joinWith '','' (concat (map MatchRoute (Rules rules))))),
      MessageToAny = (\<lambda>v. v),
      anypbNew = (\<lambda>wasm. Inr (wasmConfiguration wasm)),
      MessageToGoGoStruct = (\<lambda>f. Inr (hfTypedConfig f))\<rparr>"

definition failingCodec :: Codec where
  "failingCodec = exampleCodec\<lparr>jsonMarshal := (\<lambda>rules. Inl (ErrOther ''marshal''))\<rparr>"

definition exampleSecret :: ClusterNamespacedName where
  "exampleSecret = \<lparr>cnnClusterId = [], cnnNamespace = ''default'', cnnName = ''users''\<rparr>"

definition exampleHandler :: AnnotationHandler where
  "exampleHandler =
     \<lparr>Parse = (\<lambda>annotations config globalContext.
         case annotations ''auth-realm'' of
           None \<Rightarrow> (None, config, globalContext)
         | Some realm \<Rightarrow>
             (None,
              config\<lparr>Auth := Some \<lparr>AuthSecret = exampleSecret, AuthRealm = realm,
                                   Credentials = [''alice:secret'']\<rparr>\<rparr>,
              globalContext\<lparr>WatchedSecrets :=
                insert (ClusterNamespacedName_String exampleNaming exampleSecret)
                  (WatchedSecrets globalContext)\<rparr>)),
      ApplyGateway = (\<lambda>gateway config. gateway),
      ApplyRoute = (\<lambda>route config. route),
      ApplyVirtualServiceHandler = (\<lambda>virtualService config. virtualService),
      ApplyTrafficPolicy = (\<lambda>policy config. policy)\<rparr>"

definition exampleObject :: "string \<Rightarrow> Annotations \<Rightarrow> Config" where
  "exampleObject name annotations =
     \<lparr>cfgGroupVersionKind =
        \<lparr>gvkGroup = ''networking.k8s.io'', gvkVersion = ''v1'', gvkKind = ''Ingress''\<rparr>,
      cfgName = name, cfgNamespace = ''default'', cfgAnnotations = annotations,
      cfgSpec = IngressSpec ''example.com''\<rparr>"

definition exampleWrapper ::
  "string \<Rightarrow> FallbackConfig option \<Rightarrow> AuthConfig option \<Rightarrow> WrapperConfig" where
  "exampleWrapper name fallbackConfig auth =
     \<lparr>wcConfig = exampleObject name Map.empty,
      AnnotationsConfig =
        \<lparr>Namespace = ''default'', Name = name, RawClusterId = [], ClusterId = [],
         localRateLimit = None, DownstreamTLS = None, Auth = auth, Fallback = fallbackConfig\<rparr>\<rparr>"

definition exampleRoute ::
  "string \<Rightarrow> string option \<Rightarrow> 32 word list \<Rightarrow> WrapperConfig \<Rightarrow> WrapperHTTPRoute" where
  "exampleRoute name marker weights wrapperConfig =
     \<lparr>HTTPRoute =
        \<lparr>hrName = name, hrMatch = [],
         hrRoute = map (\<lambda>w. \<lparr>rdDestination = None, Weight = w\<rparr>) weights,
         hrRedirect = None, hrInternalActiveRedirect = marker, hrOther = []\<rparr>,
      wrWrapperConfig = wrapperConfig, wrClusterId = [], WeightTotal = 100, wrOther = []\<rparr>"

definition exampleFallback :: FallbackConfig where
  "exampleFallback =
     \<lparr>DefaultBackend = \<lparr>nnNamespace = ''default'', nnName = ''backup''\<rparr>, Port = 8080\<rparr>"

definition exampleAuth :: AuthConfig where
  "exampleAuth = \<lparr>AuthSecret = exampleSecret, AuthRealm = ''staff'',
     Credentials = [''alice:secret'']\<rparr>"

definition exampleConvertHTTPRoute ::
  "ConvertOptions \<Rightarrow> WrapperConfig \<Rightarrow> ConvertOptions \<times> error option" where
  "exampleConvertHTTPRoute convertOptions cfg =
     (let host = (case cfgSpec (wcConfig cfg) of IngressSpec h \<Rightarrow> h | _ \<Rightarrow> []);
          route = exampleRoute (cfgName (wcConfig cfg)) None [0] cfg;
          routes = (case map_of (HTTPRoutes convertOptions) host of
                      None \<Rightarrow> [] | Some rs \<Rightarrow> rs)
      in (convertOptions
            \<lparr>HTTPRoutes := AList.update host (routes @ [route]) (HTTPRoutes convertOptions),
             VirtualServices :=
               (case map_of (VirtualServices convertOptions) host of
                  None \<Rightarrow>
                    AList.update host
                      \<lparr>wvVirtualService = \<lparr>vsGateways = [], vsHttp = [], vsOther = []\<rparr>,
                       wvWrapperConfig = cfg, AppRoot = []\<rparr>
                      (VirtualServices convertOptions)
                | Some _ \<Rightarrow> VirtualServices convertOptions)\<rparr>,
          None))"

definition exampleConvertTrafficPolicy ::
  "ConvertOptions \<Rightarrow> WrapperConfig \<Rightarrow> ConvertOptions \<times> error option" where
  "exampleConvertTrafficPolicy convertOptions cfg =
     (convertOptions\<lparr>Service2TrafficPolicy :=
        AList.update
          \<lparr>skNamespace = ''default'', skName = ''backend'',
           skPort = (if cfgName (wcConfig cfg) = ''web'' then 80 else 443)\<rparr>
          \<lparr>wtTrafficPolicy = cfgName (wcConfig cfg), wtWrapperConfig = cfg\<rparr>
          (Service2TrafficPolicy convertOptions)\<rparr>,
      None)"

definition exampleController :: "Config list \<Rightarrow> IngressController" where
  "exampleController objects =
     \<lparr>ctlList = objects, ctlHasSynced = True, ctlSecretLister = ''secrets'',
      ctlServiceLister = ''services'', ctlHandlers = [],
      ConvertGateway = (\<lambda>convertOptions cfg. (convertOptions, None)),
      ConvertHTTPRoute = exampleConvertHTTPRoute,
      ConvertTrafficPolicy = exampleConvertTrafficPolicy,
      ApplyDefaultBackend = (\<lambda>convertOptions cfg. (convertOptions, None)),
      ApplyCanaryIngress = (\<lambda>convertOptions cfg. (convertOptions, None))\<rparr>"

text \<open>
  Two choices of the runtime: every walk visits the entries as they are listed, or every walk
  visits the first entry after the second.
\<close>

definition forwardOrder :: "walk \<Rightarrow> nat list" where
  "forwardOrder w = []"

definition reverseOrder :: "walk \<Rightarrow> nat list" where
  "reverseOrder w = [1]"

definition exampleRuntime :: "(walk \<Rightarrow> nat list) \<Rightarrow> Runtime" where
  "exampleRuntime order =
     \<lparr>naming = exampleNaming, codec = exampleCodec,
      SortIngressByCreationTime = (\<lambda>configs. configs),
      IngressRouteCache_Extract = map (\<lambda>route. hrName (HTTPRoute route)),
      IngressDomainCache_Extract = (\<lambda>domains. domains),
      rangeOrder = order,
      unrepresentable = (\<lambda>x. 0)\<rparr>"

definition exampleEngine :: "Config list \<Rightarrow> IngressConfig" where
  "exampleEngine objects =
     \<lparr>remoteIngressControllers = [([], exampleController objects)],
      ingressRouteCache = [], ingressDomainCache = [],
      virtualServiceHandlers = [], gatewayHandlers = [], destinationRuleHandlers = [],
      envoyFilterHandlers = [], cachedEnvoyFilters = [], watchedSecretSet = {},
      XDSUpdater = [], annotationHandler = exampleHandler,
      globalGatewayName = ''higress-system/global'', namespace = ''higress-system'',
      clusterId = []\<rparr>"

text \<open>
  Lookup helpers for the parser examples: an annotation is present when the map holds its
  key, and an unsigned value parses when it is a non-empty string of decimal digits below
  $2^{32}$.
\<close>

definition exampleHas :: "Annotations \<Rightarrow> string \<Rightarrow> bool" where
  "exampleHas annotations key = (annotations key \<noteq> None)"

fun parseDecimal :: "string \<Rightarrow> nat \<Rightarrow> nat option" where
  "parseDecimal [] acc = Some acc"
| "parseDecimal (c # cs) acc =
     (if 48 \<le> (of_char c :: nat) \<and> (of_char c :: nat) \<le> 57
      then parseDecimal cs (10 * acc + (of_char c - 48))
      else None)"

definition exampleParseUint32 :: "Annotations \<Rightarrow> string \<Rightarrow> error + 32 word" where
  "exampleParseUint32 annotations key =
     (case annotations key of
        None \<Rightarrow> Inl (ErrOther ''missing'')
      | Some v \<Rightarrow>
          (if v = [] then Inl (ErrOther ''invalid'')
           else (case parseDecimal v 0 of
                   None \<Rightarrow> Inl (ErrOther ''invalid'')
                 | Some n \<Rightarrow> if n < 2 ^ 32 then Inr (of_nat n) else Inl (ErrOther ''invalid''))))"

section \<open>Properties of the annotation parsers\<close>

lemma isValidTLSProtocolVersion_iff:
  "isValidTLSProtocolVersion p \<longleftrightarrow> p \<in> {''TLSv1.0'', ''TLSv1.1'', ''TLSv1.2'', ''TLSv1.3''}"
  by (simp add: isValidTLSProtocolVersion_def tlsProtocol_def tlsV10_def tlsV11_def
      tlsV12_def tlsV13_def)



text \<open>
  C8.  The protocol-version check accepts exactly the four strings \<open>TLSv1.0\<close> to
  \<open>TLSv1.3\<close>.  \<open>Parse\<close> never returns an error; when a TLS annotation is present, the
  minimum (maximum) version of the stored config is the annotation's value if that value is
  one of the four, and is left empty otherwise; when none is present the fragment is
  untouched.
\<close>

theorem downstreamTLS_Parse_protocol_versions:
  "fst (downstreamTLS_Parse HasMSE HasASAP PA PM Split Valid ann cfg) = None \<and>
   (isValidTLSProtocolVersion p \<longleftrightarrow> p \<in> {''TLSv1.0'', ''TLSv1.1'', ''TLSv1.2'', ''TLSv1.3''}) \<and>
   (needDownstreamTLS HasMSE HasASAP ann \<longrightarrow>
      map_option TlsMinVersion
          (DownstreamTLS (snd (downstreamTLS_Parse HasMSE HasASAP PA PM Split Valid ann cfg))) =
        Some (case PM ann tlsMinVersion of
                Inr v \<Rightarrow> if v \<in> {''TLSv1.0'', ''TLSv1.1'', ''TLSv1.2'', ''TLSv1.3''} then v else []
              | Inl e \<Rightarrow> []) \<and>
      map_option TlsMaxVersion
          (DownstreamTLS (snd (downstreamTLS_Parse HasMSE HasASAP PA PM Split Valid ann cfg))) =
        Some (case PM ann tlsMaxVersion of
                Inr v \<Rightarrow> if v \<in> {''TLSv1.0'', ''TLSv1.1'', ''TLSv1.2'', ''TLSv1.3''} then v else []
              | Inl e \<Rightarrow> [])) \<and>
   (\<not> needDownstreamTLS HasMSE HasASAP ann \<longrightarrow>
      snd (downstreamTLS_Parse HasMSE HasASAP PA PM Split Valid ann cfg) = cfg)"
  by (simp add: downstreamTLS_Parse_def Let_def isValidTLSProtocolVersion_iff
      split: sum.splits)

theorem downstreamTLS_Parse_protocol_versions_witness:
  "needDownstreamTLS (\<lambda>a k. a k \<noteq> None) (\<lambda>a k. a k \<noteq> None)
      [tlsMinVersion \<mapsto> ''TLSv1.4'', tlsMaxVersion \<mapsto> ''TLSv1.2''] \<and>
   downstreamTLS_Parse (\<lambda>a k. a k \<noteq> None) (\<lambda>a k. a k \<noteq> None)
      (\<lambda>a k. case a k of None \<Rightarrow> Inl (ErrOther ''missing'') | Some v \<Rightarrow> Inr v)
      (\<lambda>a k. case a k of None \<Rightarrow> Inl (ErrOther ''missing'') | Some v \<Rightarrow> Inr v)
      (\<lambda>s. \<lparr>nnNamespace = [], nnName = s\<rparr>) (\<lambda>c. True)
      [tlsMinVersion \<mapsto> ''TLSv1.4'', tlsMaxVersion \<mapsto> ''TLSv1.2'']
      (AnnotationsConfig (exampleWrapper ''web'' None None)) =
     (None, (AnnotationsConfig (exampleWrapper ''web'' None None))
        \<lparr>DownstreamTLS := Some \<lparr>TlsMinVersion = [], TlsMaxVersion = ''TLSv1.2'',
           CipherSuites = [], Mode = SIMPLE,
           CASecretName = \<lparr>nnNamespace = [], nnName = []\<rparr>\<rparr>\<rparr>)"
  using downstreamTLS_Parse_protocol_versions [of "\<lambda>a k. a k \<noteq> None" "\<lambda>a k. a k \<noteq> None"
      "\<lambda>a k. case a k of None \<Rightarrow> Inl (ErrOther ''missing'') | Some v \<Rightarrow> Inr v"
      "\<lambda>a k. case a k of None \<Rightarrow> Inl (ErrOther ''missing'') | Some v \<Rightarrow> Inr v"
      "\<lambda>s. \<lparr>nnNamespace = [], nnName = s\<rparr>" "\<lambda>c. True"
      "[tlsMinVersion \<mapsto> ''TLSv1.4'', tlsMaxVersion \<mapsto> ''TLSv1.2'']"
      "AnnotationsConfig (exampleWrapper ''web'' None None)" "''TLSv1.4''"]
  by (simp add: downstreamTLS_Parse_def needDownstreamTLS_def Let_def tlsMinVersion_def
      tlsMaxVersion_def authTLSSecret_def sslCipher_def isValidTLSProtocolVersion_iff)

section \<open>Properties of the engine's entry points\<close>

text \<open>
  C9.  Registering a handler for a kind other than VirtualService, Gateway, DestinationRule
  and EnvoyFilter leaves the engine as it was: the four handler lists and every adapter,
  with the handlers registered on it, are unchanged.
\<close>

theorem RegisterEventHandler_unsupported_kind_noop:
  "kind \<notin> {gvk_VirtualService, gvk_Gateway, gvk_DestinationRule, gvk_EnvoyFilter} \<Longrightarrow>
   RegisterEventHandler kind f m = m"
  by (simp add: RegisterEventHandler_def)

theorem RegisterEventHandler_unsupported_kind_noop_witness:
  "\<lparr>gvkGroup = [], gvkVersion = ''v1'', gvkKind = ''Secret''\<rparr> \<notin>
     {gvk_VirtualService, gvk_Gateway, gvk_DestinationRule, gvk_EnvoyFilter} \<and>
   RegisterEventHandler \<lparr>gvkGroup = [], gvkVersion = ''v1'', gvkKind = ''Secret''\<rparr> 7
     (exampleEngine [exampleObject ''web'' Map.empty]) =
     exampleEngine [exampleObject ''web'' Map.empty]"
proof -
  have k: "\<lparr>gvkGroup = [], gvkVersion = ''v1'', gvkKind = ''Secret''\<rparr> \<notin>
     {gvk_VirtualService, gvk_Gateway, gvk_DestinationRule, gvk_EnvoyFilter}"
    by (simp add: gvk_Gateway_def gvk_VirtualService_def gvk_DestinationRule_def
      gvk_EnvoyFilter_def)
  show ?thesis
    using k RegisterEventHandler_unsupported_kind_noop [OF k] by simp
qed

text \<open>
  C10.  With no adapter registered, \<open>HasSynced\<close> is true: the loop has nothing to visit.
\<close>

theorem HasSynced_without_adapters:
  "remoteIngressControllers m = [] \<Longrightarrow> HasSynced rt m"
  by (simp add: HasSynced_def)

theorem HasSynced_without_adapters_witness:
  "remoteIngressControllers ((exampleEngine [])\<lparr>remoteIngressControllers := []\<rparr>) = [] \<and>
   HasSynced (exampleRuntime forwardOrder) ((exampleEngine [])\<lparr>remoteIngressControllers := []\<rparr>)"
  using HasSynced_without_adapters [of "(exampleEngine [])\<lparr>remoteIngressControllers := []\<rparr>"
      "exampleRuntime forwardOrder"]
  by simp

text \<open>
  C5.  \<open>List\<close> returns no object and \<open>ErrUnsupportedOp\<close>, and leaves the engine as it was,
  for every kind other than the four supported ones and for every non-empty namespace;
  \<open>Create\<close>, \<open>Update\<close>, \<open>UpdateStatus\<close>, \<open>Patch\<close> and \<open>Delete\<close> return
  \<open>ErrUnsupportedOp\<close> for every input.
\<close>

theorem List_and_mutations_unsupported:
  "(typ \<notin> {gvk_Gateway, gvk_VirtualService, gvk_DestinationRule, gvk_EnvoyFilter} \<or> ns \<noteq> [] \<longrightarrow>
      IngressConfig_List rt typ ns m = Returns (m, [], Some ErrUnsupportedOp)) \<and>
   Create m cfg = ([], Some ErrUnsupportedOp) \<and>
   Update m cfg = ([], Some ErrUnsupportedOp) \<and>
   UpdateStatus m cfg = ([], Some ErrUnsupportedOp) \<and>
   Patch m cfg patchFunc = ([], Some ErrUnsupportedOp) \<and>
   Delete m typ name ns' resourceVersion = Some ErrUnsupportedOp"
  by (auto simp: IngressConfig_List_def Create_def Update_def UpdateStatus_def Patch_def
      Delete_def)

theorem List_and_mutations_unsupported_witness:
  "\<lparr>gvkGroup = [], gvkVersion = ''v1'', gvkKind = ''Secret''\<rparr> \<notin>
     {gvk_Gateway, gvk_VirtualService, gvk_DestinationRule, gvk_EnvoyFilter} \<and>
   IngressConfig_List (exampleRuntime forwardOrder)
     \<lparr>gvkGroup = [], gvkVersion = ''v1'', gvkKind = ''Secret''\<rparr> []
     (exampleEngine [exampleObject ''web'' Map.empty]) =
     Returns (exampleEngine [exampleObject ''web'' Map.empty], [], Some ErrUnsupportedOp) \<and>
   ''default'' \<noteq> [] \<and>
   IngressConfig_List (exampleRuntime forwardOrder) gvk_Gateway ''default''
     (exampleEngine [exampleObject ''web'' Map.empty]) =
     Returns (exampleEngine [exampleObject ''web'' Map.empty], [], Some ErrUnsupportedOp)"
proof -
  have k: "\<lparr>gvkGroup = [], gvkVersion = ''v1'', gvkKind = ''Secret''\<rparr> \<notin>
     {gvk_Gateway, gvk_VirtualService, gvk_DestinationRule, gvk_EnvoyFilter}"
    by (simp add: gvk_Gateway_def gvk_VirtualService_def gvk_DestinationRule_def
      gvk_EnvoyFilter_def)
  show ?thesis
    using k
      List_and_mutations_unsupported [of
        "\<lparr>gvkGroup = [], gvkVersion = ''v1'', gvkKind = ''Secret''\<rparr>"
        "[]" "exampleRuntime forwardOrder" "exampleEngine [exampleObject ''web'' Map.empty]"]
      List_and_mutations_unsupported [of gvk_Gateway "''default''"
        "exampleRuntime forwardOrder" "exampleEngine [exampleObject ''web'' Map.empty]"]
    by simp
qed

section \<open>Evaluating the example deployment\<close>

lemmas example_defs =
  exampleEngine_def exampleController_def exampleObject_def exampleRuntime_def
  exampleNaming_def exampleHandler_def exampleCodec_def failingCodec_def
  exampleConvertHTTPRoute_def exampleConvertTrafficPolicy_def exampleRoute_def
  exampleWrapper_def exampleSecret_def exampleAuth_def exampleFallback_def

lemmas pipeline_defs =
  IngressConfig_List_def createWrapperConfigs_def convertEach_def convertGateways_def
  convertDestinationRule_def mergeTrafficPolicy_def convertVirtualService_def
  applyCanaryIngresses_def applyAppRoot_def applyInternalActiveRedirect_def
  convertEnvoyFilter_def basicAuthMappings_def constructBasicAuthEnvoyFilter_def
  normalizeWeightedCluster_def normalizeHosts_def emptyOptions_def strings_HasSuffix_def

lemma goRange_forward [simp]: "goRange (forwardOrder w) entries = entries"
  by (cases entries) (simp_all add: forwardOrder_def)

lemma goRange_reverse_1 [simp]: "goRange (reverseOrder w) [x] = [x]"
  by (simp add: reverseOrder_def)

lemma goRange_reverse_2 [simp]: "goRange (reverseOrder w) [x, y] = [y, x]"
  by (simp add: reverseOrder_def)

lemma gvk_distinct [simp]:
  "gvk_Gateway \<noteq> gvk_VirtualService" "gvk_Gateway \<noteq> gvk_DestinationRule"
  "gvk_Gateway \<noteq> gvk_EnvoyFilter" "gvk_VirtualService \<noteq> gvk_DestinationRule"
  "gvk_VirtualService \<noteq> gvk_EnvoyFilter" "gvk_DestinationRule \<noteq> gvk_EnvoyFilter"
  "gvk_VirtualService \<noteq> gvk_Gateway" "gvk_DestinationRule \<noteq> gvk_Gateway"
  "gvk_EnvoyFilter \<noteq> gvk_Gateway" "gvk_DestinationRule \<noteq> gvk_VirtualService"
  "gvk_EnvoyFilter \<noteq> gvk_VirtualService" "gvk_EnvoyFilter \<noteq> gvk_DestinationRule"
  by (simp_all add: gvk_Gateway_def gvk_VirtualService_def gvk_DestinationRule_def
      gvk_EnvoyFilter_def)

section \<open>Properties of weight normalization\<close>

lemma fold_Weight_sum:
  "fold (\<lambda>routeDestination sum. sum + Weight routeDestination) ds a =
     a + sum_list (map Weight ds)"
  by (induction ds arbitrary: a) (simp_all add: add.assoc)

text \<open>
  The single-precision quotient of 53 and 100 is $8891924 \cdot 2^{-24}$, just below 0.53;
  its single-precision product with 100 is $13893631 \cdot 2^{-18}$, just below 53, and the
  conversion to \<open>int32\<close> cuts it to 52.  For 30 of 100 the product rounds to 30 exactly.
\<close>

lemma weightPercent_53_of_100: "weightPercent u 53 100 = 52"
  by code_simp

lemma weightPercent_30_of_100: "weightPercent u 30 100 = 30"
  by code_simp

text \<open>
  Normalization of a route with at least one destination returns, keeps the number of
  destinations, and leaves weights whose \<open>int32\<close> sum is 100, the first one being 100 minus
  the sum of the others.  A route with a single destination gets weight 100.  A route without
  a destination makes the function index an empty slice.
\<close>

theorem normalizeWeightedCluster_sums_to_100:
  assumes "hrRoute (HTTPRoute route) \<noteq> []"
  shows "\<exists>cache' route'. normalizeWeightedCluster u cache route = Returns (cache', route') \<and>
     sum_list (map Weight (hrRoute (HTTPRoute route'))) = 100 \<and>
     length (hrRoute (HTTPRoute route')) = length (hrRoute (HTTPRoute route)) \<and>
     Weight (hd (hrRoute (HTTPRoute route'))) =
       100 - sum_list (map Weight (tl (hrRoute (HTTPRoute route'))))"
proof (cases "hrRoute (HTTPRoute route)")
  case Nil
  with assms show ?thesis by simp
next
  case (Cons d0 others)
  show ?thesis
  proof (cases others)
    case Nil
    with Cons show ?thesis by (simp add: normalizeWeightedCluster_def)
  next
    case (Cons d1 more)
    with \<open>hrRoute (HTTPRoute route) = d0 # others\<close> show ?thesis
      by (simp add: normalizeWeightedCluster_def Let_def fold_Weight_sum)
  qed
qed

theorem normalizeWeightedCluster_sums_to_100_witness:
  "hrRoute (HTTPRoute (exampleRoute ''r'' None [30, 30, 30] (exampleWrapper ''web'' None None)))
     \<noteq> [] \<and>
   normalizeWeightedCluster (\<lambda>x. 0) None
       (exampleRoute ''r'' None [30, 30, 30] (exampleWrapper ''web'' None None)) =
     Returns (None, exampleRoute ''r'' None [40, 30, 30] (exampleWrapper ''web'' None None))"
proof -
  have n: "hrRoute (HTTPRoute (exampleRoute ''r'' None [30, 30, 30]
      (exampleWrapper ''web'' None None))) \<noteq> []"
    by (simp add: exampleRoute_def)
  show ?thesis
    using n normalizeWeightedCluster_sums_to_100 [OF n, of "\<lambda>x. 0" None]
    by (simp add: normalizeWeightedCluster_def exampleRoute_def Let_def
        weightPercent_30_of_100 word_sless_alt)
qed

lemma normalizeWeightedCluster_single:
  "hrRoute (HTTPRoute route) = [d] \<Longrightarrow>
   normalizeWeightedCluster u cache route =
     Returns (cache, route\<lparr>HTTPRoute := (HTTPRoute route)\<lparr>hrRoute := [d\<lparr>Weight := 100\<rparr>]\<rparr>\<rparr>)"
  by (simp add: normalizeWeightedCluster_def)

lemma normalizeWeightedCluster_no_destination:
  "hrRoute (HTTPRoute route) = [] \<Longrightarrow>
   normalizeWeightedCluster u cache route = Panics ''index out of range [0] with length 0''"
  by (simp add: normalizeWeightedCluster_def)

text \<open>
  C1.  The claim gives each non-first destination the weight
  \<open>round_down(weight / total * 100)\<close>.  On a route with the declared weights 47 and 53 and
  the route-level total 100 that is 53 for the second destination and 47 for the first.  The
  code, computing in single precision, gives the second destination 52 and the first 48.
\<close>

theorem normalizeWeightedCluster_53_of_100:
  "normalizeWeightedCluster u None (exampleRoute ''r'' None [47, 53] wrapperConfig) =
     Returns (None, exampleRoute ''r'' None [48, 52] wrapperConfig)"
  by (simp add: normalizeWeightedCluster_def exampleRoute_def Let_def
      weightPercent_53_of_100 word_sless_alt)

section \<open>Properties of the fallback splice\<close>

lemma redirectRoutes_eq:
  "redirectRoutes n routes tempRoutes =
     rev (List.map_filter (companionRoute n) routes) @ tempRoutes @ routes"
proof (induction routes arbitrary: tempRoutes)
  case Nil
  show ?case by simp
next
  case (Cons route routes)
  show ?case
    by (cases "Fallback (AnnotationsConfig (wrWrapperConfig route))")
      (simp_all add: Cons.IH companionRoute_def Let_def)
qed

text \<open>
  C3, as stated, fails: with the routes \<open>a\<close>, \<open>b\<close> of one host, of which only \<open>b\<close> carries
  the marker and a fallback target, the companion of \<open>b\<close> ends up before \<open>a\<close>, not
  immediately before \<open>b\<close>.
\<close>

theorem fallback_companion_not_adjacent:
  "map (hrName \<circ> HTTPRoute)
     (redirectRoutes exampleNaming
        [exampleRoute ''a'' None [100] (exampleWrapper ''ing-a'' None None),
         exampleRoute ''b'' (Some ''policy'') [100]
           (exampleWrapper ''ing-b'' (Some exampleFallback) None)] []) =
     [''b-fallback'', ''a'', ''b''] \<and>
   redirectRoutes exampleNaming
     [exampleRoute ''a'' None [100] (exampleWrapper ''ing-a'' None None),
      exampleRoute ''b'' (Some ''policy'') [100]
        (exampleWrapper ''ing-b'' (Some exampleFallback) None)] [] \<noteq>
     [exampleRoute ''a'' None [100] (exampleWrapper ''ing-a'' None None),
      internalRedirectRoute exampleNaming
        (exampleRoute ''b'' (Some ''policy'') [100]
           (exampleWrapper ''ing-b'' (Some exampleFallback) None)) exampleFallback,
      exampleRoute ''b'' (Some ''policy'') [100]
        (exampleWrapper ''ing-b'' (Some exampleFallback) None)]"
  by (simp add: example_defs Let_def internalRedirectRoute_def)

text \<open>
  C3, amended.  After the pass a host's route list is the companions of its triggering
  routes, the companion of a later route first, followed by the original routes in their
  order and unchanged; so a companion stands before its triggering route, and before every
  route that preceded it.  A route triggers when it carries the marker and its object
  declares a fallback target.  Its companion is a copy of it, renamed with the fallback
  suffix, without the marker, with the single match: URI exactly \<open>/\<close> and two exact-match
  headers, the companion's own name and the fallback service's identity; and with the single
  destination: the fallback service and port, weight 100.  A route whose object declares no
  fallback target gets no companion and stays as it is.
\<close>

theorem fallback_companions_lead_the_route_list:
  "redirectRoutes n routes [] = rev (List.map_filter (companionRoute n) routes) @ routes \<and>
   applyInternalActiveRedirect n httpRoutes =
     map (\<lambda>(host, routes). (host, rev (List.map_filter (companionRoute n) routes) @ routes))
       httpRoutes \<and>
   (\<forall>route. Fallback (AnnotationsConfig (wrWrapperConfig route)) = None \<longrightarrow>
      companionRoute n route = None \<and> redirectRoutes n [route] [] = [route]) \<and>
   (\<forall>route fallbackConfig.
      hrInternalActiveRedirect (HTTPRoute route) \<noteq> None \<and>
      Fallback (AnnotationsConfig (wrWrapperConfig route)) = Some fallbackConfig \<longrightarrow>
      (\<exists>c. companionRoute n route = Some c \<and>
         redirectRoutes n [route] [] = [c, route] \<and>
         hrName (HTTPRoute c) = hrName (HTTPRoute route) @ FallbackRouteNameSuffix n \<and>
         hrInternalActiveRedirect (HTTPRoute c) = None \<and>
         hrOther (HTTPRoute c) = hrOther (HTTPRoute route) \<and>
         hrRedirect (HTTPRoute c) = hrRedirect (HTTPRoute route) \<and>
         wrWrapperConfig c = wrWrapperConfig route \<and>
         wrClusterId c = wrClusterId route \<and>
         hrMatch (HTTPRoute c) =
           [\<lparr>Uri = Some (Exact ''/''),
             Headers = [FallbackInjectHeaderRouteName n \<mapsto> Exact (hrName (HTTPRoute c)),
                        FallbackInjectFallbackService n \<mapsto>
                          Exact (NamespacedName_String n (DefaultBackend fallbackConfig))],
             matchOther = []\<rparr>] \<and>
         hrRoute (HTTPRoute c) =
           [\<lparr>rdDestination =
                Some \<lparr>Host = CreateServiceFQDN n (nnNamespace (DefaultBackend fallbackConfig))
                               (nnName (DefaultBackend fallbackConfig)),
                      PortNumber = Some (Port fallbackConfig)\<rparr>,
             Weight = 100\<rparr>]))"
  by (auto simp: redirectRoutes_eq applyInternalActiveRedirect_def companionRoute_def
      internalRedirectRoute_def Let_def)

theorem fallback_companions_lead_the_route_list_witness:
  "Fallback (AnnotationsConfig (wrWrapperConfig
      (exampleRoute ''a'' (Some ''policy'') [100] (exampleWrapper ''ing-a'' None None)))) = None \<and>
   redirectRoutes exampleNaming
     [exampleRoute ''a'' (Some ''policy'') [100] (exampleWrapper ''ing-a'' None None)] [] =
     [exampleRoute ''a'' (Some ''policy'') [100] (exampleWrapper ''ing-a'' None None)] \<and>
   hrInternalActiveRedirect (HTTPRoute (exampleRoute ''b'' (Some ''policy'') [100]
      (exampleWrapper ''ing-b'' (Some exampleFallback) None))) \<noteq> None \<and>
   Fallback (AnnotationsConfig (wrWrapperConfig (exampleRoute ''b'' (Some ''policy'') [100]
      (exampleWrapper ''ing-b'' (Some exampleFallback) None)))) = Some exampleFallback \<and>
   map (hrName \<circ> HTTPRoute)
     (redirectRoutes exampleNaming
        [exampleRoute ''b'' (Some ''policy'') [100]
           (exampleWrapper ''ing-b'' (Some exampleFallback) None)] []) =
     [''b-fallback'', ''b''] \<and>
   map (hrRoute \<circ> HTTPRoute)
     (redirectRoutes exampleNaming
        [exampleRoute ''b'' (Some ''policy'') [100]
           (exampleWrapper ''ing-b'' (Some exampleFallback) None)] []) =
     [[\<lparr>rdDestination = Some \<lparr>Host = ''backup.default'', PortNumber = Some 8080\<rparr>,
        Weight = 100\<rparr>],
      [\<lparr>rdDestination = None, Weight = 100\<rparr>]]"
  using fallback_companions_lead_the_route_list [of exampleNaming
      "[exampleRoute ''b'' (Some ''policy'') [100]
          (exampleWrapper ''ing-b'' (Some exampleFallback) None)]" "[]"]
  by (simp add: example_defs Let_def internalRedirectRoute_def companionRoute_def)

section \<open>Properties of secret reflection\<close>

text \<open>
  C4, as stated, fails: for a watched secret two pushes are issued, the first naming
  VirtualService only and the second EnvoyFilter only, not one push covering both kinds.
\<close>

theorem ReflectSecretChanges_two_pushes:
  "XDSUpdater (ReflectSecretChanges exampleNaming exampleSecret
      ((exampleEngine [])\<lparr>watchedSecretSet := {''/default/users''}\<rparr>)) =
     [\<lparr>Full = True,
       ConfigsUpdated = {\<lparr>ckKind = gvk_VirtualService, ckName = ''users'',
                          ckNamespace = ''default''\<rparr>},
       Reason = [''auth-secret-change'']\<rparr>,
      \<lparr>Full = True,
       ConfigsUpdated = {\<lparr>ckKind = gvk_EnvoyFilter, ckName = ''users'',
                          ckNamespace = ''default''\<rparr>},
       Reason = [''auth-secret-change'']\<rparr>] \<and>
   length (XDSUpdater (ReflectSecretChanges exampleNaming exampleSecret
      ((exampleEngine [])\<lparr>watchedSecretSet := {''/default/users''}\<rparr>))) \<noteq> 1"
  by (simp add: ReflectSecretChanges_def secretPush_def exampleNaming_def exampleSecret_def
      exampleEngine_def)

text \<open>
  C4, amended.  A notification for a secret whose cluster-scoped identity is not in the
  watched-secret set changes nothing: no push is issued.  For a secret in the set exactly two
  full pushes are issued and nothing else changes: the first names the secret under the kind
  VirtualService, the second under the kind EnvoyFilter, each with the reason
  \<open>auth-secret-change\<close>; no push names another kind.
\<close>

theorem ReflectSecretChanges_one_push_per_kind:
  "(ClusterNamespacedName_String n secret \<notin> watchedSecretSet m \<longrightarrow>
      ReflectSecretChanges n secret m = m) \<and>
   (ClusterNamespacedName_String n secret \<in> watchedSecretSet m \<longrightarrow>
      ReflectSecretChanges n secret m =
        m\<lparr>XDSUpdater := XDSUpdater m @
          [\<lparr>Full = True,
            ConfigsUpdated = {\<lparr>ckKind = gvk_VirtualService, ckName = cnnName secret,
                               ckNamespace = cnnNamespace secret\<rparr>},
            Reason = [''auth-secret-change'']\<rparr>,
           \<lparr>Full = True,
            ConfigsUpdated = {\<lparr>ckKind = gvk_EnvoyFilter, ckName = cnnName secret,
                               ckNamespace = cnnNamespace secret\<rparr>},
            Reason = [''auth-secret-change'']\<rparr>]\<rparr>)"
  by (simp add: ReflectSecretChanges_def secretPush_def)

theorem ReflectSecretChanges_one_push_per_kind_witness:
  "ClusterNamespacedName_String exampleNaming exampleSecret \<notin>
     watchedSecretSet (exampleEngine []) \<and>
   ReflectSecretChanges exampleNaming exampleSecret (exampleEngine []) = exampleEngine [] \<and>
   ClusterNamespacedName_String exampleNaming exampleSecret \<in>
     watchedSecretSet ((exampleEngine [])\<lparr>watchedSecretSet := {''/default/users''}\<rparr>) \<and>
   length (XDSUpdater (ReflectSecretChanges exampleNaming exampleSecret
      ((exampleEngine [])\<lparr>watchedSecretSet := {''/default/users''}\<rparr>))) = 2"
  using ReflectSecretChanges_one_push_per_kind [of exampleNaming exampleSecret "exampleEngine []"]
    ReflectSecretChanges_one_push_per_kind [of exampleNaming exampleSecret
      "(exampleEngine [])\<lparr>watchedSecretSet := {''/default/users''}\<rparr>"]
  by (simp add: exampleNaming_def exampleSecret_def exampleEngine_def)

section \<open>Properties of filter derivation\<close>

text \<open>
  C2, as stated, fails.  The engine holds one cached filter, which \<open>List\<close> returns for the
  kind EnvoyFilter; its one object carries basic auth, and serialising the rules fails.
  After the route pass the cache is empty: the previous filter is gone.  The same shows on
  \<open>convertEnvoyFilter\<close> alone.
\<close>

theorem failed_filter_construction_clears_cache:
  "map_outcome (map cfgName \<circ> fst \<circ> snd)
     (IngressConfig_List ((exampleRuntime forwardOrder)\<lparr>codec := failingCodec\<rparr>)
        gvk_EnvoyFilter []
        ((exampleEngine [exampleObject ''web'' [''auth-realm'' \<mapsto> ''staff'']])
           \<lparr>cachedEnvoyFilters := [exampleObject ''previous-filter'' Map.empty]\<rparr>)) =
     Returns [''previous-filter''] \<and>
   map_outcome (cachedEnvoyFilters \<circ> fst)
     (IngressConfig_List ((exampleRuntime forwardOrder)\<lparr>codec := failingCodec\<rparr>)
        gvk_VirtualService []
        ((exampleEngine [exampleObject ''web'' [''auth-realm'' \<mapsto> ''staff'']])
           \<lparr>cachedEnvoyFilters := [exampleObject ''previous-filter'' Map.empty]\<rparr>)) =
     Returns [] \<and>
   constructBasicAuthEnvoyFilter failingCodec exampleNaming
     \<lparr>Rules = [\<lparr>Realm = ''staff'', MatchRoute = [''web''],
                ruleCredentials = [''alice:secret''], Encrypted = True\<rparr>]\<rparr>
     ''higress-system'' = Inl (ErrOther ''marshal'') \<and>
   cachedEnvoyFilters
     (convertEnvoyFilter ((exampleRuntime forwardOrder)\<lparr>codec := failingCodec\<rparr>)
        (emptyOptions\<lparr>HTTPRoutes :=
           [(''example.com'',
             [exampleRoute ''web'' None [100]
                (exampleWrapper ''web'' None (Some exampleAuth))])]\<rparr>)
        ((exampleEngine [])
           \<lparr>cachedEnvoyFilters := [exampleObject ''previous-filter'' Map.empty]\<rparr>)) = []"
  by (simp add: pipeline_defs example_defs Let_def)

text \<open>
  C2, amended.  When the construction of the basic-auth filter fails, that pass stores the
  empty filter list: the previously cached filters are dropped, nothing else in the engine
  changes, and \<open>List\<close> for the kind EnvoyFilter returns no object and no error from then on.
  What a pass stores never depends on what was cached before it.
\<close>

theorem convertEnvoyFilter_replaces_cache:
  "(\<forall>err. constructBasicAuthEnvoyFilter (codec rt) (naming rt)
        \<lparr>Rules = map snd (goRange (rangeOrder rt BasicAuthRules)
           (basicAuthMappings rt convertOptions))\<rparr>
        (namespace m) = Inl err \<longrightarrow>
      convertEnvoyFilter rt convertOptions m = m\<lparr>cachedEnvoyFilters := []\<rparr> \<and>
      IngressConfig_List rt gvk_EnvoyFilter [] (convertEnvoyFilter rt convertOptions m) =
        Returns (m\<lparr>cachedEnvoyFilters := []\<rparr>, [], None)) \<and>
   convertEnvoyFilter rt convertOptions (m\<lparr>cachedEnvoyFilters := previous\<rparr>) =
     convertEnvoyFilter rt convertOptions m"
  by (auto simp: convertEnvoyFilter_def Let_def IngressConfig_List_def split: sum.splits)

theorem convertEnvoyFilter_replaces_cache_witness:
  "constructBasicAuthEnvoyFilter (codec ((exampleRuntime forwardOrder)\<lparr>codec := failingCodec\<rparr>))
     (naming ((exampleRuntime forwardOrder)\<lparr>codec := failingCodec\<rparr>))
     \<lparr>Rules = map snd (goRange
        (rangeOrder ((exampleRuntime forwardOrder)\<lparr>codec := failingCodec\<rparr>) BasicAuthRules)
        (basicAuthMappings ((exampleRuntime forwardOrder)\<lparr>codec := failingCodec\<rparr>)
           (emptyOptions\<lparr>HTTPRoutes :=
              [(''example.com'',
                [exampleRoute ''web'' None [100]
                   (exampleWrapper ''web'' None (Some exampleAuth))])]\<rparr>)))\<rparr>
     (namespace ((exampleEngine [])
        \<lparr>cachedEnvoyFilters := [exampleObject ''previous-filter'' Map.empty]\<rparr>)) =
     Inl (ErrOther ''marshal'') \<and>
   convertEnvoyFilter ((exampleRuntime forwardOrder)\<lparr>codec := failingCodec\<rparr>)
     (emptyOptions\<lparr>HTTPRoutes :=
        [(''example.com'',
          [exampleRoute ''web'' None [100]
             (exampleWrapper ''web'' None (Some exampleAuth))])]\<rparr>)
     ((exampleEngine [])
        \<lparr>cachedEnvoyFilters := [exampleObject ''previous-filter'' Map.empty]\<rparr>) =
     exampleEngine []"
  using convertEnvoyFilter_replaces_cache [of "(exampleRuntime forwardOrder)\<lparr>codec := failingCodec\<rparr>"
      "emptyOptions\<lparr>HTTPRoutes :=
        [(''example.com'',
          [exampleRoute ''web'' None [100]
             (exampleWrapper ''web'' None (Some exampleAuth))])]\<rparr>"
      "(exampleEngine [])
        \<lparr>cachedEnvoyFilters := [exampleObject ''previous-filter'' Map.empty]\<rparr>"
      "[]"]
  by (simp add: pipeline_defs example_defs Let_def)

end
